theory Spec2Isabelle
  imports Complex_Main "HOL-Library.Word"
begin

section \<open>Python strings used by the property-name resolution\<close>

text \<open>
  Property identifiers are Python \<open>str\<close> values. They are modelled as \<open>string\<close>
  restricted to ASCII (\<open>isascii\<close>): the native symbol names they resolve to are
  C identifiers, and \<open>upper\<close>, \<open>split\<close> and the class \<open>[A-Z]\<close> are written
  out here for ASCII characters only.
\<close>

definition isascii :: "string \<Rightarrow> bool" where
  "isascii s = list_all (\<lambda>c. (of_char c :: nat) < 128) s"

text \<open>The character class \<open>[A-Z]\<close> of the regular expression in \<open>_property_value\<close>.\<close>

definition is_AZ :: "char \<Rightarrow> bool" where
  "is_AZ c = (65 \<le> (of_char c :: nat) \<and> (of_char c :: nat) \<le> 90)"

text \<open>
  \<open>str.isspace\<close> on one ASCII character: tab, line feed, vertical tab, form feed,
  carriage return, the separators 0x1c to 0x1f, and the space.
\<close>

definition isspace :: "char \<Rightarrow> bool" where
  "isspace c = (let n = (of_char c :: nat) in (9 \<le> n \<and> n \<le> 13) \<or> (28 \<le> n \<and> n \<le> 32))"

text \<open>\<open>re.sub(r"([A-Z])", r" \1", s)\<close>: a space is put before every character of \<open>[A-Z]\<close>.\<close>

fun re_sub_AZ :: "string \<Rightarrow> string" where
  "re_sub_AZ [] = []"
| "re_sub_AZ (c # cs) = (if is_AZ c then CHR '' '' # c # re_sub_AZ cs else c # re_sub_AZ cs)"

text \<open>
  \<open>s.split()\<close> with no argument: the maximal runs of characters that are not
  whitespace, in order. \<open>split_from w s\<close> scans \<open>s\<close> with the word \<open>w\<close> read so far.
\<close>

fun split_from :: "string \<Rightarrow> string \<Rightarrow> string list" where
  "split_from w [] = (if w = [] then [] else [w])"
| "split_from w (c # cs) =
     (if isspace c then (if w = [] then split_from [] cs else w # split_from [] cs)
      else split_from (w @ [c]) cs)"

definition str_split :: "string \<Rightarrow> string list" where
  "str_split s = split_from [] s"

text \<open>\<open>sep.join(words)\<close>.\<close>

fun str_join :: "string \<Rightarrow> string list \<Rightarrow> string" where
  "str_join sep [] = []"
| "str_join sep [w] = w"
| "str_join sep (w # v # ws) = w @ sep @ str_join sep (v # ws)"

text \<open>\<open>s.upper()\<close> on ASCII: the letters a to z are mapped to A to Z.\<close>

definition upper_char :: "char \<Rightarrow> char" where
  "upper_char c =
     (if 97 \<le> (of_char c :: nat) \<and> (of_char c :: nat) \<le> 122
      then char_of ((of_char c :: nat) - 32) else c)"

definition str_upper :: "string \<Rightarrow> string" where
  "str_upper s = map upper_char s"

text \<open>\<open>sub in s\<close> for strings: \<open>sub\<close> occurs in \<open>s\<close> as a contiguous run.\<close>

fun str_contains :: "string \<Rightarrow> string \<Rightarrow> bool" where
  "str_contains sub [] = (sub = [])"
| "str_contains sub (c # cs) = (take (length sub) (c # cs) = sub \<or> str_contains sub cs)"

text \<open>
  \<open>s.replace(old, new)\<close> for a non-empty \<open>old\<close>: every occurrence, scanning from the
  left, occurrences not overlapping. (The source calls it with \<open>old = "Grn"\<close> only;
  Python's special case of an empty \<open>old\<close> is not needed and \<open>s\<close> is returned as it is.)
\<close>

function str_replace :: "string \<Rightarrow> string \<Rightarrow> string \<Rightarrow> string" where
  "str_replace old new [] = []"
| "str_replace old new (c # cs) =
     (if old \<noteq> [] \<and> take (length old) (c # cs) = old
      then new @ str_replace old new (drop (length old) (c # cs))
      else c # str_replace old new cs)"
  by pat_completeness auto
termination
  by (relation "measure (\<lambda>(old, new, s). length s)") (auto simp: neq_Nil_conv)

text \<open>
  The name that \<open>_property_value\<close> looks up on the bound library for a \<open>str\<close> argument:
  \<^verbatim>\<open>
    if "_" not in property:
        property = "_".join(re.sub(r"([A-Z])", r" \1", property).split())
    property = getattr(self.lib, f"LUCAM_PROP_{property.upper()}")
  \<close>
\<close>

definition prop_symbol :: "string \<Rightarrow> string" where
  "prop_symbol property =
     (let property' = (if CHR ''_'' \<notin> set property
                       then str_join ''_'' (str_split (re_sub_AZ property))
                       else property)
      in ''LUCAM_PROP_'' @ str_upper property')"

text \<open>
  The reading of the specification's words for the same name: the identifier is split at
  each capital letter (a new word starts at every capital letter, and a word is never
  empty), the words are joined with underscores, the result is upper-cased and the
  prefix is put in front. \<open>cut_from w s\<close> scans \<open>s\<close> with the word \<open>w\<close> read so far.
\<close>

definition is_capital :: "char \<Rightarrow> bool" where
  "is_capital c = (c \<in> set ''ABCDEFGHIJKLMNOPQRSTUVWXYZ'')"

fun cut_from :: "string \<Rightarrow> string \<Rightarrow> string list" where
  "cut_from w [] = (if w = [] then [] else [w])"
| "cut_from w (c # cs) =
     (if is_capital c then (if w = [] then cut_from [c] cs else w # cut_from [c] cs)
      else cut_from (w @ [c]) cs)"

definition spec_split_capitals :: "string \<Rightarrow> string list" where
  "spec_split_capitals s = cut_from [] s"

definition spec_prop_symbol :: "string \<Rightarrow> string" where
  "spec_prop_symbol s =
     ''LUCAM_PROP_'' @ str_upper (if CHR ''_'' \<in> set s then s
                                   else str_join ''_'' (spec_split_capitals s))"

section \<open>Errors\<close>

text \<open>
  Every exception the modelled code can raise is a value. \<open>LucamError\<close> carries the
  code that \<open>LucamError.__init__\<close> fetches with \<open>get_last_error\<close>; the others are the
  Python exceptions of attribute access, dictionary lookup, the conversion of an integer
  to a C integer type, a call with missing arguments and an array of negative size.
\<close>

datatype error =
    LucamError int
  | AttributeError string
  | KeyError int
  | OverflowError string
  | TypeError string
  | ValueError string

section \<open>The error table\<close>

text \<open>
  \<open>LucamError.__str__\<close> returns \<open>self.CODES[self.value]\<close>: a dictionary lookup,
  which raises \<open>KeyError\<close> for a key that is not in the table.
\<close>

definition dict_getitem :: "('k \<times> 'v) list \<Rightarrow> 'k \<Rightarrow> 'v option" where
  "dict_getitem d k = map_of d k"

text \<open>
  The class attribute \<open>CODES\<close>, key by key; each text is the name, a line break and
  the description with the indentation of the source.
\<close>

definition CODES :: "(int \<times> string) list" where
  "CODES =
     [
      (0, ''NoError\<newline>            Initialization value in the API.''),
      (1, ''NoSuchIndex\<newline>            The index passed to LucamCameraOpen was 0. It must be >= 1.''),
      (2, ''SnapshotNotSupported\<newline>            The camera does not support snapshots or fast frames.''),
      (3, ''InvalidPixelFormat\<newline>            The pixel format parameter passed to the function is invalid.''),
      (4, ''SubsamplingZero\<newline>            A subsampling of zero was passed to a function.''),
      (5, ''Busy\<newline>            The function is unavailable because the camera is busy with\<newline>            streaming or capturing fast frames.''),
      (6, ''FailedToSetSubsampling\<newline>            The API failed to set the requested subsampling. This can be due\<newline>            to the camera being disconnected. It can also be due to a filter\<newline>            not being there.''),
      (7, ''FailedToSetStartPosition\<newline>            The API failed to set the requested subsampling. This can be due\<newline>            to the camera being disconnected.''),
      (8, ''PixelFormatNotSupported\<newline>            The camera does not support the pixel format passed to the\<newline>            function.''),
      (9, ''InvalidFrameFormat\<newline>            The format passed to the function does not pass the camera\<newline>            requirements. Verify that (xOffset + width) is not greater than\<newline>            the camera's maximum width. Verify that (width / subSamplingX)\<newline>            is a multiple of some 'nice' value. Do the same for the y.''),
      (10, ''PreparationFailed\<newline>            The API failed to prepare the camera for streaming or snapshot.\<newline>            This can due to the camera being disconnected. If START_STREAMING\<newline>            succeeds and START_DISPLAY fails with this error, this can be due\<newline>            to a filter not being there or registered.''),
      (11, ''CannotRun\<newline>            The API failed to get the camera running. This can be due to\<newline>            a bandwidth problem.''),
      (12, ''NoTriggerControl\<newline>            Contact Lumenera.''),
      (13, ''NoPin\<newline>            Contact Lumenera.''),
      (14, ''NotRunning\<newline>            The function failed because it requires the camera to be running,\<newline>            and it is not.''),
      (15, ''TriggerFailed\<newline>            Contact Lumenera.''),
      (16, ''CannotSetupFrameFormat\<newline>            The camera does not support that its frame format get setup.\<newline>            This will happen if your camera is plugged to a USB 1 port and\<newline>            it does not support it. LucamCameraOpen will still succeeds,\<newline>            but if a call to LucamGetLastError will return this value.''),
      (17, ''DirectShowInitError\<newline>            Direct Show initialization error. This may happen if you run the\<newline>            API before having installed a DS compatible camera ever before.\<newline>            The Lumenera camera is DS compatible.''),
      (18, ''CameraNotFound\<newline>            The function LucamCameraOpen did not find the camera # index.''),
      (19, ''Timeout\<newline>            The function timed out.''),
      (20, ''PropertyUnknown\<newline>            The API does not know the property passed to LucamGetProperty,\<newline>            LucamSetProperty or LucamGetPropertyRange. You may be using an\<newline>            old DLL.''),
      (21, ''PropertyUnsupported\<newline>            The camera does not support that property.''),
      (22, ''PropertyAccessFailed\<newline>            The API failed to access the property. Most likely, the reason\<newline>            is that the camera does not support that property.''),
      (23, ''LucustomNotFound\<newline>            The lucustom.ax filter was not found.''),
      (24, ''PreviewNotRunning\<newline>            The function failed because preview is not running.''),
      (25, ''LutfNotLoaded\<newline>            The function failed because lutf.ax is not loaded.''),
      (26, ''DirectShowError\<newline>            An error related to the operation of DirectShow occured.''),
      (27, ''NoMoreCallbacks\<newline>            The function LucamAddStreamingCallback failed because the API\<newline>            cannot support any more callbacks.''),
      (28, ''UndeterminedFrameFormat\<newline>            The API does not know what is the frame format of the camera.''),
      (29, ''InvalidParameter\<newline>            An parameter has an obviously wrong value.''),
      (30, ''NotEnoughResources\<newline>            Resource allocation failed.''),
      (31, ''NoSuchConversion\<newline>            One of the members of the LUCAM_CONVERSION structure passed is\<newline>            either unknown or inappropriate.''),
      (32, ''ParameterNotWithinBoundaries\<newline>            A parameter representing a quantity is outside the allowed\<newline>            boundaries.''),
      (33, ''BadFileIo\<newline>            An error occured creating a file or writing to it. Verify that\<newline>            the path exists.''),
      (34, ''GdiplusNotFound\<newline>            gdiplus.dll is needed and was not found.''),
      (35, ''GdiplusError\<newline>            gdiplus.dll reported an error. This may happen if there is a file\<newline>            IO error.''),
      (36, ''UnknownFormatType\<newline>            Contact Lumenera.''),
      (37, ''FailedCreateDisplay\<newline>            The API failed to create the display window. The reason could be\<newline>            unsufficient resources.''),
      (38, ''DpLibNotFound\<newline>            deltapolation.dll is needed and was not found.''),
      (39, ''DpCmdNotSupported\<newline>            The deltapolation command is not supported by the delta\<newline>            polation library.''),
      (40, ''DpCmdUnknown\<newline>            The deltapolation command is unknown or invalid.''),
      (41, ''NotWhilePaused\<newline>            The function cannot be performed when the camera is in\<newline>            paused state.''),
      (42, ''CaptureFailed\<newline>            Contact Lumenera.''),
      (43, ''DpError\<newline>            Contact Lumenera.''),
      (44, ''NoSuchFrameRate\<newline>            Contact Lumenera.''),
      (45, ''InvalidTarget\<newline>            One of the target parameters is wrong. This error code is used\<newline>            when startX + width > (frameFormat.width / frameFormat.subSampleX)\<newline>            or startY + height > (frameFormat.height / frameFormat.subSampleY)\<newline>            if any of those parameter is odd (not a multiple of 2) or\<newline>            or if width or height is 0.''),
      (46, ''FrameTooDark\<newline>            The frame is too dark to perform white balance.''),
      (47, ''KsPropertySetNotFound\<newline>            A DirectShow interface necessary to carry out the operation\<newline>            was not found.''),
      (48, ''Cancelled\<newline>            The user cancelled the operation.''),
      (49, ''KsControlNotSupported\<newline>            The DirectShow IKsControl interface is not supported (did you\<newline>            unplug the camera?).''),
      (50, ''EventNotSupported\<newline>            Some module attempted to register an unsupported event.''),
      (51, ''NoPreview\<newline>            The function failed because preview was not setup.''),
      (52, ''SetPositionFailed\<newline>            A function setting window position failed (invalid parameters).''),
      (53, ''NoFrameRateList\<newline>            The frame rate list is not available.''),
      (54, ''FrameRateInconsistent\<newline>            There was an error building the frame rate list.''),
      (55, ''CameraNotConfiguredForCmd\<newline>            The camera does not support that particular command.''),
      (56, ''GraphNotReady\<newline>            The graph is not ready.''),
      (57, ''CallbackSetupError\<newline>            Contact Lumenera.''),
      (58, ''InvalidTriggerMode\<newline>            You cannot cause a soft trigger when hw trigger is enabled.''),
      (59, ''NotFound\<newline>            The API was asked to return soomething that is not there.''),
      (60, ''EepromTooSmall\<newline>            The onboard EEPROM is too small.''),
      (61, ''EepromWriteFailed\<newline>            The API failed to write to the onboard eeprom.''),
      (62, ''UnknownFileType\<newline>            The API failed because it failed to recognize the file type of\<newline>            a file name passed to it.''),
      (63, ''EventIdNotSupported\<newline>            LucamRegisterEventNotification failed because the event\<newline>            is not supported.''),
      (64, ''EepromCorrupted\<newline>            The API found that the EEPROM was corrupted.''),
      (65, ''SectionTooBig\<newline>            The VPD section to write to the eeprom is too big.''),
      (66, ''FrameTooBright\<newline>            The frame is too bright to perform white balance.''),
      (67, ''NoCorrectionMatrix\<newline>            The camera is configured to have no correction matrix\<newline>            (PROPERTY_CORRECTION_MATRIX is LUCAM_CM_NONE).''),
      (68, ''UnknownCameraModel\<newline>            The API failed because it needs to know the camera model and it\<newline>            is not available.''),
      (69, ''ApiTooOld\<newline>            The API failed because it needs to be upgraded to access a\<newline>            feature of the camera.''),
      (70, ''SaturationZero\<newline>            The API failed because the saturation is currently 0.''),
      (71, ''AlreadyInitialised\<newline>            The API failed because the object was already initialised.''),
      (72, ''SameInputAndOutputFile\<newline>            The API failed because the object was already initialised.''),
      (73, ''FileConversionFailed\<newline>            The API failed because the file conversion was not completed.''),
      (74, ''FileAlreadyConverted\<newline>            The API failed because the file is already converted in the\<newline>            desired format.''),
      (75, ''PropertyPageNotSupported\<newline>            The API failed to display the property page.''),
      (76, ''PropertyPageCreationFailed\<newline>            The API failed to create the property page.''),
      (77, ''DirectShowFilterNotInstalled\<newline>            The API did not find the required direct show filter.''),
      (78, ''IndividualLutNotAvailable\<newline>            The camera does not support that different LUTs are applied\<newline>            to each color.''),
      (79, ''UnexpectedError\<newline>            Contact Lumenera.''),
      (80, ''StreamingStopped\<newline>            LucamTakeFastFrame or LucamTakeVideo failed because another thread\<newline>            interrupted the streaming by a call to LucamDisableFastFrames or\<newline>            LucamStreamVideoControl.''),
      (81, ''MustBeInSwTriggerMode\<newline>            LucamForceTakeFastFrame was called while the camera is in hardware\<newline>            trigger still mode and the camera does not support taking a sw\<newline>            trigger snapshot while in that state.''),
      (82, ''TargetFlaky\<newline>            The target is too flaky to perform auto focus.''),
      (83, ''AutoLensUninitialized\<newline>            The auto lens needs to be initialized before the function\<newline>            is used.''),
      (84, ''LensNotInstalled\<newline>            The function failed because the lens were not installed correctly.\<newline>            Verify that changing the focus has any effect.''),
      (85, ''UnknownError\<newline>            The function failed because of an unknoen error.\<newline>            Contact Lumenera.''),
      (86, ''FocusNoFeedbackError\<newline>            There is no feedback available for focus.''),
      (87, ''LutfTooOld\<newline>            LuTF.ax is too old for this feature.''),
      (88, ''UnknownAviFormat\<newline>            Unknown or invalid AVI format for input file.''),
      (89, ''UnknownAviType\<newline>            Unknown AVI type. Verify the AVI type parameter.''),
      (90, ''InvalidAviConversion\<newline>            The AVI conversion is invalid.''),
      (91, ''SeekFailed\<newline>            The seeking operation failed.''),
      (92, ''AviRunning\<newline>            The function cannot be performed while an AVI is being\<newline>            captured.''),
      (93, ''CameraAlreadyOpened\<newline>            An attempt was made to open a camera for streaming-related\<newline>            reasons while it is already opened for such.''),
      (94, ''NoSubsampledHighRes\<newline>            The API cannot take a high resolution image in subsampled mode\<newline>            or binning mode.''),
      (95, ''OnlyOnMonochrome\<newline>            The API function is only available on monochrome cameras.''),
      (96, ''No8bppTo48bpp\<newline>            Building a 48 bpp image from an 8 bpp image is invalid.''),
      (97, ''Lut8Obsolete\<newline>            Use 12 bits LUT instead.''),
      (98, ''FunctionNotSupported\<newline>            That functionnality is not supported.''),
      (99, ''RetryLimitReached\<newline>            Property access failed due to a retry limit.'')
     ]"

text \<open>
  \<^verbatim>\<open>
    def __str__(self):
        return self.CODES[self.value]
  \<close>
  \<open>v\<close> is the attribute \<open>self.value\<close> of the exception.
\<close>

definition LucamError_str :: "int \<Rightarrow> error + string" where
  "LucamError_str v =
     (case dict_getitem CODES v of
        None \<Rightarrow> Inl (KeyError v)
      | Some text \<Rightarrow> Inr text)"

section \<open>Native structures\<close>

text \<open>
  The declaration of \<open>LUCAM_FRAME_FORMAT\<close> is in \<open>lucamapi.h\<close>, which is not part of
  the sources at hand, so it is a parameter: for each field name the header declares, the
  storage cell the field occupies (members of one union share a cell, and are taken to
  have one type) and the inclusive range of its C integer type. A structure value gives
  the contents of each cell; \<open>ffi.new\<close> returns it zero-initialised.

  The foreign-function layer converts on every access: reading an integer field gives a
  value of the field's type, and writing a Python integer that the type cannot hold
  raises \<open>OverflowError\<close>; a field that the header does not declare raises
  \<open>AttributeError\<close>.
\<close>

record cfield =
  cell :: nat
  c_min :: int
  c_max :: int

type_synonym cstruct = "string \<Rightarrow> cfield option"

type_synonym cdata = "nat \<Rightarrow> int"

definition ffi_new :: cdata where
  "ffi_new = (\<lambda>_. 0)"

definition c_read :: "cfield \<Rightarrow> int \<Rightarrow> int" where
  "c_read fd v = c_min fd + (v - c_min fd) mod (c_max fd - c_min fd + 1)"

definition c_getattr :: "cstruct \<Rightarrow> cdata \<Rightarrow> string \<Rightarrow> error + int" where
  "c_getattr decl c attr =
     (case decl attr of
        None \<Rightarrow> Inl (AttributeError attr)
      | Some fd \<Rightarrow> Inr (c_read fd (c (cell fd))))"

definition c_setattr :: "cstruct \<Rightarrow> cdata \<Rightarrow> string \<Rightarrow> int \<Rightarrow> error + cdata" where
  "c_setattr decl c attr v =
     (case decl attr of
        None \<Rightarrow> Inl (AttributeError attr)
      | Some fd \<Rightarrow>
          if c_min fd \<le> v \<and> v \<le> c_max fd then Inr (c(cell fd := v))
          else Inl (OverflowError attr))"

text \<open>
  Modelled from the spec: the declaration of \<open>LUCAM_SNAPSHOT\<close> is in \<open>lucamapi.h\<close>,
  which is not part of the sources at hand. The specification gives a snapshot an
  exposure time, four gain channels, a timeout and an embedded format, so the native
  structure has the seven \<open>FLOAT\<close> fields that \<open>Snapshot.as_lucam\<close> writes, by
  name, and the embedded frame format. A Python number written to a \<open>FLOAT\<close> field
  is narrowed to a C float; the narrowing is the parameter \<open>to_c_float\<close> of the
  binding.
\<close>

record csnapshot =
  c_floats :: "string \<Rightarrow> real"
  c_format :: cdata

record ffi =
  frame_format_decl :: cstruct
  to_c_float :: "real \<Rightarrow> real"

section \<open>Format\<close>

record Format =
  xOffset :: int
  yOffset :: int
  width :: int
  height :: int
  pixelFormat :: int
  subSampleX :: int
  binningX :: int
  flagsX :: int
  subSampleY :: int
  binningY :: int
  flagsY :: int

text \<open>\<open>Format.__annotations__\<close>, in the order of the class body.\<close>

definition Format_annotations :: "string list" where
  "Format_annotations =
     [''xOffset'', ''yOffset'', ''width'', ''height'', ''pixelFormat'', ''subSampleX'',
      ''binningX'', ''flagsX'', ''subSampleY'', ''binningY'', ''flagsY'']"

text \<open>\<open>getattr(self, attr)\<close> on a \<open>Format\<close>.\<close>

definition Format_getattr :: "Format \<Rightarrow> string \<Rightarrow> int option" where
  "Format_getattr f attr =
     map_of
       [(''xOffset'', xOffset f), (''yOffset'', yOffset f), (''width'', width f),
        (''height'', height f), (''pixelFormat'', pixelFormat f),
        (''subSampleX'', subSampleX f), (''binningX'', binningX f), (''flagsX'', flagsX f),
        (''subSampleY'', subSampleY f), (''binningY'', binningY f), (''flagsY'', flagsY f)]
       attr"

text \<open>
  \<open>cls(**kwargs)\<close>: the generated \<open>__init__\<close> of the dataclass takes the eleven
  fields by keyword and raises \<open>TypeError\<close> when one is missing.
\<close>

definition Format_init :: "(string \<rightharpoonup> int) \<Rightarrow> error + Format" where
  "Format_init kwargs =
     (case those (map kwargs Format_annotations) of
        Some [a, b, c, d, e, f, g, h, i, j, k] \<Rightarrow>
          Inr \<lparr>xOffset = a, yOffset = b, width = c, height = d, pixelFormat = e,
               subSampleX = f, binningX = g, flagsX = h, subSampleY = i, binningY = j,
               flagsY = k\<rparr>
      | _ \<Rightarrow> Inl (TypeError ''__init__() missing required arguments''))"

text \<open>
  \<^verbatim>\<open>
    def from_lucam(cls, lucam_frame_format):
        kwargs = {}
        for attr in cls.__annotations__:
            kwargs[attr] = getattr(lucam_frame_format, attr)
        return cls(**kwargs)
  \<close>
\<close>

fun from_lucam_loop ::
  "cstruct \<Rightarrow> cdata \<Rightarrow> string list \<Rightarrow> (string \<rightharpoonup> int) \<Rightarrow> error + (string \<rightharpoonup> int)" where
  "from_lucam_loop decl c [] kwargs = Inr kwargs"
| "from_lucam_loop decl c (attr # attrs) kwargs =
     (case c_getattr decl c attr of
        Inl e \<Rightarrow> Inl e
      | Inr v \<Rightarrow> from_lucam_loop decl c attrs (kwargs(attr \<mapsto> v)))"

definition Format_from_lucam :: "cstruct \<Rightarrow> cdata \<Rightarrow> error + Format" where
  "Format_from_lucam decl lucam_frame_format =
     (case from_lucam_loop decl lucam_frame_format Format_annotations Map.empty of
        Inl e \<Rightarrow> Inl e
      | Inr kwargs \<Rightarrow> Format_init kwargs)"

text \<open>
  \<^verbatim>\<open>
    def as_lucam(self):
        lucam_frame_format = LUCAM_FFI.new("LUCAM_FRAME_FORMAT *")
        for attr in self.__annotations__:
            setattr(lucam_frame_format, attr, getattr(self, attr))
        return lucam_frame_format
  \<close>
\<close>

fun as_lucam_loop :: "cstruct \<Rightarrow> Format \<Rightarrow> string list \<Rightarrow> cdata \<Rightarrow> error + cdata" where
  "as_lucam_loop decl self [] c = Inr c"
| "as_lucam_loop decl self (attr # attrs) c =
     (case Format_getattr self attr of
        None \<Rightarrow> Inl (AttributeError attr)
      | Some v \<Rightarrow>
          (case c_setattr decl c attr v of
             Inl e \<Rightarrow> Inl e
           | Inr c' \<Rightarrow> as_lucam_loop decl self attrs c'))"

definition Format_as_lucam :: "cstruct \<Rightarrow> Format \<Rightarrow> error + cdata" where
  "Format_as_lucam decl self = as_lucam_loop decl self Format_annotations ffi_new"

text \<open>The round trip: \<open>Format.from_lucam(f.as_lucam())\<close>.\<close>

definition Format_roundtrip :: "cstruct \<Rightarrow> Format \<Rightarrow> error + Format" where
  "Format_roundtrip decl f =
     (case Format_as_lucam decl f of
        Inl e \<Rightarrow> Inl e
      | Inr c \<Rightarrow> Format_from_lucam decl c)"

section \<open>Snapshot\<close>

record Snapshot =
  exposure :: real
  gain :: real
  gainRed :: real
  gainBlue :: real
  gainGrn1 :: real
  gainGrn2 :: real
  timeout :: real
  format :: Format

text \<open>
  The values a \<open>Snapshot\<close> field holds: a Python number (the floats read from the
  camera and the integer constant 100, which Python compares equal to 100.0; no
  arithmetic is done on them) or a \<open>Format\<close>.
\<close>

datatype pyobj = Num real | Fmt Format

text \<open>\<open>Snapshot.__annotations__\<close>, in the order of the class body.\<close>

definition Snapshot_annotations :: "string list" where
  "Snapshot_annotations =
     [''exposure'', ''gain'', ''gainRed'', ''gainBlue'', ''gainGrn1'', ''gainGrn2'',
      ''timeout'', ''format'']"

definition Snapshot_getattr :: "Snapshot \<Rightarrow> string \<Rightarrow> pyobj option" where
  "Snapshot_getattr s attr =
     map_of
       [(''exposure'', Num (exposure s)), (''gain'', Num (gain s)),
        (''gainRed'', Num (gainRed s)), (''gainBlue'', Num (gainBlue s)),
        (''gainGrn1'', Num (gainGrn1 s)), (''gainGrn2'', Num (gainGrn2 s)),
        (''timeout'', Num (timeout s)), (''format'', Fmt (format s))]
       attr"

text \<open>
  \<open>Snapshot(**kwargs)\<close>: \<open>TypeError\<close> when a field is missing. The record is typed
  by the annotations of the class; \<open>get_default_snapshot\<close>, the only caller, always
  passes numbers for the seven numeric fields and a \<open>Format\<close> for the last.
\<close>

definition Snapshot_init :: "(string \<rightharpoonup> pyobj) \<Rightarrow> error + Snapshot" where
  "Snapshot_init kwargs =
     (case those (map kwargs Snapshot_annotations) of
        Some [Num a, Num b, Num c, Num d, Num e, Num f, Num g, Fmt h] \<Rightarrow>
          Inr \<lparr>exposure = a, gain = b, gainRed = c, gainBlue = d, gainGrn1 = e,
               gainGrn2 = f, timeout = g, format = h\<rparr>
      | _ \<Rightarrow> Inl (TypeError ''__init__() missing required arguments''))"

text \<open>
  \<^verbatim>\<open>
    def as_lucam(self):
        lucam_snapshot = LUCAM_FFI.new("LUCAM_SNAPSHOT *")
        for attr in self.__annotations__:
            value = getattr(self, attr)
            if attr == "format":
                value = value.as_lucam()[0]
            setattr(lucam_snapshot, attr, value)
        return lucam_snapshot
  \<close>
\<close>

fun snapshot_as_lucam_loop ::
  "ffi \<Rightarrow> Snapshot \<Rightarrow> string list \<Rightarrow> csnapshot \<Rightarrow> error + csnapshot" where
  "snapshot_as_lucam_loop ffi self [] c = Inr c"
| "snapshot_as_lucam_loop ffi self (attr # attrs) c =
     (case Snapshot_getattr self attr of
        None \<Rightarrow> Inl (AttributeError attr)
      | Some v \<Rightarrow>
          if attr = ''format'' then
            (case v of
               Fmt f \<Rightarrow>
                 (case Format_as_lucam (frame_format_decl ffi) f of
                    Inl e \<Rightarrow> Inl e
                  | Inr cf \<Rightarrow> snapshot_as_lucam_loop ffi self attrs (c\<lparr>c_format := cf\<rparr>))
             | Num x \<Rightarrow> Inl (AttributeError ''as_lucam''))
          else
            (case v of
               Num x \<Rightarrow>
                 snapshot_as_lucam_loop ffi self attrs
                   (c\<lparr>c_floats := (c_floats c)(attr := to_c_float ffi x)\<rparr>)
             | Fmt f \<Rightarrow> Inl (TypeError attr)))"

definition Snapshot_as_lucam :: "ffi \<Rightarrow> Snapshot \<Rightarrow> error + csnapshot" where
  "Snapshot_as_lucam ffi self =
     snapshot_as_lucam_loop ffi self Snapshot_annotations
       \<lparr>c_floats = (\<lambda>_. 0), c_format = ffi_new\<rparr>"

section \<open>The bound library\<close>

text \<open>
  The vendor library is opaque, so it is a parameter: a record of its functions over a
  state \<open>'n\<close> of the native side that every call may change, and the integer constants
  of the header by name (\<open>getattr(self.lib, name)\<close>; a name that the header does not
  define raises \<open>AttributeError\<close>). A function that returns \<open>BOOL\<close> gives \<open>True\<close> for
  success; out-parameters are returned beside it. A camera handle is the integer value
  of the pointer. \<open>LucamTakeFastFrame\<close> leaves bytes in the caller's buffer: the byte
  at each offset.

  The conversion of Python call arguments to the C parameter types of the header's
  function declarations is not modelled.
\<close>

record 'n lib =
  symbols :: "string \<Rightarrow> int option"
  LucamCameraOpen :: "int \<Rightarrow> 'n \<Rightarrow> int \<times> 'n"
  LucamGetLastErrorForCamera :: "int \<Rightarrow> 'n \<Rightarrow> int \<times> 'n"
  LucamGetProperty :: "int \<Rightarrow> int \<Rightarrow> 'n \<Rightarrow> (bool \<times> real) \<times> 'n"
  LucamSetProperty :: "int \<Rightarrow> int \<Rightarrow> real \<Rightarrow> int \<Rightarrow> 'n \<Rightarrow> bool \<times> 'n"
  LucamGetFormat :: "int \<Rightarrow> 'n \<Rightarrow> (bool \<times> cdata \<times> real) \<times> 'n"
  LucamEnableFastFrames :: "int \<Rightarrow> csnapshot \<Rightarrow> 'n \<Rightarrow> bool \<times> 'n"
  LucamDisableFastFrames :: "int \<Rightarrow> 'n \<Rightarrow> bool \<times> 'n"
  LucamTakeFastFrame :: "int \<Rightarrow> 'n \<Rightarrow> (bool \<times> (nat \<Rightarrow> 8 word)) \<times> 'n"
  LucamStreamVideoControl :: "int \<Rightarrow> int \<Rightarrow> 'n \<Rightarrow> bool \<times> 'n"
  LucamOneShotAutoWhiteBalance :: "int \<Rightarrow> int \<Rightarrow> int \<Rightarrow> int \<Rightarrow> int \<Rightarrow> 'n \<Rightarrow> bool \<times> 'n"
  LucamCameraClose :: "int \<Rightarrow> 'n \<Rightarrow> bool \<times> 'n"

text \<open>
  Every access of the session to the bound library is recorded, in order: the lookup of
  a constant by name, and each native call with its arguments (for
  \<open>LucamEnableFastFrames\<close> the snapshot that was marshalled for it).
\<close>

datatype event =
    Symbol string
  | CameraOpen int
  | GetLastErrorForCamera int
  | GetProperty int int
  | SetProperty int int real int
  | GetFormat int
  | EnableFastFrames int Snapshot
  | DisableFastFrames int
  | TakeFastFrame int
  | StreamVideoControl int int
  | OneShotAutoWhiteBalance int int int int int
  | CameraClose int

section \<open>The camera session\<close>

text \<open>
  The attributes of a \<open>LucamCamera\<close>. \<open>format\<close>, \<open>snapshot\<close>, \<open>width\<close> and
  \<open>height\<close> have no value until \<open>get_format\<close> and \<open>get_default_snapshot\<close> assign
  them (reading one before raises \<open>AttributeError\<close>); \<open>framerate\<close> and
  \<open>fast_frames_enabled\<close> start from the class attributes 30 and \<open>False\<close>.
\<close>

record LucamCamera =
  handle :: int
  cam_format :: "Format option"
  cam_snapshot :: "Snapshot option"
  framerate :: real
  fast_frames_enabled :: bool
  cam_width :: "int option"
  cam_height :: "int option"

record 'n world =
  cam :: LucamCamera
  native :: 'n
  trace :: "event list"

text \<open>
  An operation of the session runs in a world and ends in a world, with a result or with the
  exception it raised; attributes assigned before a \<open>raise\<close> stay assigned.
\<close>

type_synonym ('n, 'a) action = "'n world \<Rightarrow> (error + 'a) \<times> 'n world"

definition op_return :: "'a \<Rightarrow> ('n, 'a) action" where
  "op_return a w = (Inr a, w)"

definition op_raise :: "error \<Rightarrow> ('n, 'a) action" where
  "op_raise e w = (Inl e, w)"

text \<open>
  Sequencing: the second statement runs on the result and the world of the first, and
  does not run when the first raised.
\<close>

fun continue_with ::
  "(error + 'a) \<times> 'n world \<Rightarrow> ('a \<Rightarrow> ('n, 'b) action) \<Rightarrow> (error + 'b) \<times> 'n world" where
  "continue_with (Inl e, w') f = (Inl e, w')"
| "continue_with (Inr a, w') f = f a w'"

definition op_bind :: "('n, 'a) action \<Rightarrow> ('a \<Rightarrow> ('n, 'b) action) \<Rightarrow> ('n, 'b) action" where
  "op_bind m f w = continue_with (m w) f"

text \<open>\<open>self.attr\<close> for an attribute that always has a value, and for one that may not.\<close>

definition op_self :: "(LucamCamera \<Rightarrow> 'a) \<Rightarrow> ('n, 'a) action" where
  "op_self attr w = (Inr (attr (cam w)), w)"

definition op_self_opt :: "string \<Rightarrow> (LucamCamera \<Rightarrow> 'a option) \<Rightarrow> ('n, 'a) action" where
  "op_self_opt name attr w =
     (case attr (cam w) of
        None \<Rightarrow> (Inl (AttributeError name), w)
      | Some a \<Rightarrow> (Inr a, w))"

text \<open>Assignments to attributes of \<open>self\<close>.\<close>

definition op_assign :: "(LucamCamera \<Rightarrow> LucamCamera) \<Rightarrow> ('n, unit) action" where
  "op_assign upd w = (Inr (), w\<lparr>cam := upd (cam w)\<rparr>)"

text \<open>A native call: the library's function runs on the native state, and is recorded.\<close>

definition native_call :: "event \<Rightarrow> ('n \<Rightarrow> 'r \<times> 'n) \<Rightarrow> ('n, 'r) action" where
  "native_call ev f w =
     (case f (native w) of
        (r, n') \<Rightarrow> (Inr r, w\<lparr>native := n', trace := trace w @ [ev]\<rparr>))"

text \<open>\<open>self.lib.NAME\<close> for a constant of the header.\<close>

definition lib_symbol :: "'n lib \<Rightarrow> string \<Rightarrow> ('n, int) action" where
  "lib_symbol lib name w =
     (case symbols lib name of
        None \<Rightarrow> Inl (AttributeError name)
      | Some v \<Rightarrow> Inr v,
      w\<lparr>trace := trace w @ [Symbol name]\<rparr>)"

text \<open>
  \<^verbatim>\<open>
    def get_last_error(self):
        return self.lib.LucamGetLastErrorForCamera(self._handle)
  \<close>
  and \<open>raise LucamError(self)\<close>, whose \<open>__init__\<close> stores \<open>source.get_last_error()\<close>.
  (Every \<open>raise\<close> of the session passes \<open>self\<close>; the branch of \<open>__init__\<close> for
  no source, which asks the library for its global last error, is never taken.)
\<close>

definition get_last_error :: "'n lib \<Rightarrow> ('n, int) action" where
  "get_last_error lib =
     op_bind (op_self handle) (\<lambda>h.
       native_call (GetLastErrorForCamera h) (LucamGetLastErrorForCamera lib h))"

definition raise_LucamError :: "'n lib \<Rightarrow> ('n, 'a) action" where
  "raise_LucamError lib = op_bind (get_last_error lib) (\<lambda>code. op_raise (LucamError code))"

text \<open>
  \<open>LucamProperty\<close>: the members take their values from constants of the library when
  the class is created.
\<close>

datatype LucamProperty = P_gain | P_gain_red | P_gain_blue | P_gain_green1 | P_gain_green2

fun LucamProperty_symbol :: "LucamProperty \<Rightarrow> string" where
  "LucamProperty_symbol P_gain = ''LUCAM_PROP_GAIN''"
| "LucamProperty_symbol P_gain_red = ''LUCAM_PROP_GAIN_RED''"
| "LucamProperty_symbol P_gain_blue = ''LUCAM_PROP_GAIN_BLUE''"
| "LucamProperty_symbol P_gain_green1 = ''LUCAM_PROP_GAIN_GREEN1''"
| "LucamProperty_symbol P_gain_green2 = ''LUCAM_PROP_GAIN_GREEN2''"

text \<open>The argument type \<open>LucamProperty | int | str\<close>.\<close>

datatype property_id = PropEnum LucamProperty | PropInt int | PropStr string

text \<open>
  \<^verbatim>\<open>
    def _property_value(self, property):
        if isinstance(property, LucamProperty):
            property = property.value
        if isinstance(property, str):
            if "_" not in property:
                property = "_".join(re.sub(r"([A-Z])", r" \1", property).split())
            property = getattr(self.lib, f"LUCAM_PROP_{property.upper()}")
        assert isinstance(property, int)
        return property
  \<close>
  The value of an enumeration member was looked up when the module was loaded, so that
  lookup is not an access of the call. In each of the three cases \<open>property\<close> ends as
  an integer (a constant of the header is one), so the assertion holds.
\<close>

fun property_value :: "'n lib \<Rightarrow> property_id \<Rightarrow> ('n, int) action" where
  "property_value lib (PropEnum p) =
     (case symbols lib (LucamProperty_symbol p) of
        None \<Rightarrow> op_raise (AttributeError (LucamProperty_symbol p))
      | Some v \<Rightarrow> op_return v)"
| "property_value lib (PropInt i) = op_return i"
| "property_value lib (PropStr s) = lib_symbol lib (prop_symbol s)"

text \<open>
  \<^verbatim>\<open>
    def get_property(self, property):
        value = self.ffi.new("FLOAT *")
        flags = self.ffi.new("LONG *")
        if not self.lib.LucamGetProperty(
            self._handle, self._property_value(property), value, flags
        ):
            raise LucamError(self)
        return value[0]
  \<close>
\<close>

definition get_property :: "'n lib \<Rightarrow> property_id \<Rightarrow> ('n, real) action" where
  "get_property lib property =
     op_bind (op_self handle) (\<lambda>h.
     op_bind (property_value lib property) (\<lambda>p.
     op_bind (native_call (GetProperty h p) (LucamGetProperty lib h p)) (\<lambda>(ok, v).
       if \<not> ok then raise_LucamError lib else op_return v)))"

text \<open>
  \<^verbatim>\<open>
    def set_property(self, property, value):
        if not self.lib.LucamSetProperty(
            self._handle, self._property_value(property), value, 0x0
        ):
            raise LucamError(self)
  \<close>
\<close>

definition set_property :: "'n lib \<Rightarrow> property_id \<Rightarrow> real \<Rightarrow> ('n, unit) action" where
  "set_property lib property v =
     op_bind (op_self handle) (\<lambda>h.
     op_bind (property_value lib property) (\<lambda>p.
     op_bind (native_call (SetProperty h p v 0) (LucamSetProperty lib h p v 0)) (\<lambda>ok.
       if \<not> ok then raise_LucamError lib else op_return ())))"

text \<open>
  \<^verbatim>\<open>
    def get_format(self):
        lucam_format = self.ffi.new("LUCAM_FRAME_FORMAT *")
        framerate = self.ffi.new("FLOAT *")
        if not self.lib.LucamGetFormat(self._handle, lucam_format, framerate):
            raise LucamError(self)
        format = Format.from_lucam(lucam_format)
        self.format = format
        self.framerate = framerate[0]
        self.width = format.width
        self.height = format.height
        return format
  \<close>
\<close>

definition get_format :: "'n lib \<Rightarrow> ffi \<Rightarrow> ('n, Format) action" where
  "get_format lib ffi =
     op_bind (op_self handle) (\<lambda>h.
     op_bind (native_call (GetFormat h) (LucamGetFormat lib h)) (\<lambda>(ok, lucam_format, fr).
       if \<not> ok then raise_LucamError lib
       else
         (case Format_from_lucam (frame_format_decl ffi) lucam_format of
            Inl e \<Rightarrow> op_raise e
          | Inr fmt \<Rightarrow>
              op_bind (op_assign (\<lambda>self. self\<lparr>cam_format := Some fmt, framerate := fr,
                                         cam_width := Some (width fmt),
                                         cam_height := Some (height fmt)\<rparr>)) (\<lambda>_.
              op_return fmt))))"

text \<open>
  \<^verbatim>\<open>
    def get_default_snapshot(self):
        kwargs = {}
        for property in Snapshot.__annotations__:
            if property == "format":
                value = self.get_format()
            elif property == "timeout":
                value = 100
            elif "Grn" in property:
                value = self.get_property(property.replace("Grn", "Green"))
            else:
                value = self.get_property(property)
            kwargs[property] = value
        self.snapshot = Snapshot(**kwargs)
        return self.snapshot
  \<close>
\<close>

definition default_snapshot_field :: "'n lib \<Rightarrow> ffi \<Rightarrow> string \<Rightarrow> ('n, pyobj) action" where
  "default_snapshot_field lib ffi property =
     (if property = ''format'' then op_bind (get_format lib ffi) (\<lambda>f. op_return (Fmt f))
      else if property = ''timeout'' then op_return (Num 100)
      else if str_contains ''Grn'' property
      then op_bind (get_property lib (PropStr (str_replace ''Grn'' ''Green'' property)))
             (\<lambda>v. op_return (Num v))
      else op_bind (get_property lib (PropStr property)) (\<lambda>v. op_return (Num v)))"

fun default_snapshot_loop ::
  "'n lib \<Rightarrow> ffi \<Rightarrow> string list \<Rightarrow> (string \<rightharpoonup> pyobj) \<Rightarrow> ('n, string \<rightharpoonup> pyobj) action" where
  "default_snapshot_loop lib ffi [] kwargs = op_return kwargs"
| "default_snapshot_loop lib ffi (property # properties) kwargs =
     op_bind (default_snapshot_field lib ffi property) (\<lambda>v.
       default_snapshot_loop lib ffi properties (kwargs(property \<mapsto> v)))"

definition get_default_snapshot :: "'n lib \<Rightarrow> ffi \<Rightarrow> ('n, Snapshot) action" where
  "get_default_snapshot lib ffi =
     op_bind (default_snapshot_loop lib ffi Snapshot_annotations Map.empty) (\<lambda>kwargs.
       case Snapshot_init kwargs of
         Inl e \<Rightarrow> op_raise e
       | Inr s \<Rightarrow>
           op_bind (op_assign (\<lambda>self. self\<lparr>cam_snapshot := Some s\<rparr>)) (\<lambda>_. op_return s))"

text \<open>
  \<^verbatim>\<open>
    def __init__(self, number: int = 1):
        self._handle = self.lib.LucamCameraOpen(number)
        self.get_format()
        self.get_default_snapshot()
  \<close>
  The constructor runs on the native state \<open>n\<close>; a new object has the class attributes
  only, and its handle is what \<open>LucamCameraOpen\<close> returned.
\<close>

fun new_camera :: "int \<Rightarrow> int \<times> 'n \<Rightarrow> 'n world" where
  "new_camera number (h, n') =
     \<lparr>cam = \<lparr>handle = h, cam_format = None, cam_snapshot = None, framerate = 30,
             fast_frames_enabled = False, cam_width = None, cam_height = None\<rparr>,
      native = n', trace = [CameraOpen number]\<rparr>"

definition LucamCamera_init :: "'n lib \<Rightarrow> ffi \<Rightarrow> int \<Rightarrow> 'n \<Rightarrow> (error + unit) \<times> 'n world" where
  "LucamCamera_init lib ffi number n =
     op_bind (get_format lib ffi) (\<lambda>_.
     op_bind (get_default_snapshot lib ffi) (\<lambda>_. op_return ()))
       (new_camera number (LucamCameraOpen lib number n))"

text \<open>
  \<^verbatim>\<open>
    def enable_fast_frames(self, snapshot: Snapshot = None):
        snapshot = self.snapshot if snapshot is None else snapshot
        if not self.lib.LucamEnableFastFrames(self._handle, snapshot.as_lucam()):
            raise LucamError(self)
        self.fast_frames_enabled = True

    def disable_fast_frames(self):
        if not self.lib.LucamDisableFastFrames(self._handle):
            raise LucamError(self)
        self.fast_frames_enabled = False
  \<close>
\<close>

definition enable_fast_frames :: "'n lib \<Rightarrow> ffi \<Rightarrow> Snapshot option \<Rightarrow> ('n, unit) action" where
  "enable_fast_frames lib ffi snapshot =
     op_bind (case snapshot of
                None \<Rightarrow> op_self_opt ''snapshot'' cam_snapshot
              | Some s \<Rightarrow> op_return s) (\<lambda>snapshot.
     op_bind (op_self handle) (\<lambda>h.
       case Snapshot_as_lucam ffi snapshot of
         Inl e \<Rightarrow> op_raise e
       | Inr c \<Rightarrow>
           op_bind (native_call (EnableFastFrames h snapshot)
                      (LucamEnableFastFrames lib h c)) (\<lambda>ok.
             if \<not> ok then raise_LucamError lib
             else op_assign (\<lambda>self. self\<lparr>fast_frames_enabled := True\<rparr>))))"

definition disable_fast_frames :: "'n lib \<Rightarrow> ('n, unit) action" where
  "disable_fast_frames lib =
     op_bind (op_self handle) (\<lambda>h.
     op_bind (native_call (DisableFastFrames h) (LucamDisableFastFrames lib h)) (\<lambda>ok.
       if \<not> ok then raise_LucamError lib
       else op_assign (\<lambda>self. self\<lparr>fast_frames_enabled := False\<rparr>)))"

text \<open>
  The array that \<open>take_fast_frame\<close> returns: a two-dimensional \<open>numpy.ndarray\<close> of
  \<open>uint8\<close>, as its shape, its strides (in bytes, which are elements here) and the
  bytes of its buffer. \<open>np.ndarray(shape, dtype=np.uint8)\<close> allocates in C order and
  raises \<open>ValueError\<close> for a negative dimension; the bytes it starts with are not
  initialised and are replaced by the native call before the array is returned.
  \<open>np.ascontiguousarray\<close> returns an array that is already C-contiguous as it is, and a
  C-ordered copy otherwise.
\<close>

record ndarray =
  shape :: "nat \<times> nat"
  strides :: "nat \<times> nat"
  buffer :: "8 word list"

definition np_ndarray :: "int \<times> int \<Rightarrow> error + ndarray" where
  "np_ndarray dims =
     (case dims of
        (rows, cols) \<Rightarrow>
          if rows < 0 \<or> cols < 0 then Inl (ValueError ''negative dimensions are not allowed'')
          else Inr \<lparr>shape = (nat rows, nat cols), strides = (nat cols, 1),
                    buffer = replicate (nat rows * nat cols) 0\<rparr>)"

definition c_contiguous :: "ndarray \<Rightarrow> bool" where
  "c_contiguous a = (strides a = (snd (shape a), 1))"

definition ascontiguousarray :: "ndarray \<Rightarrow> ndarray" where
  "ascontiguousarray a =
     (if c_contiguous a then a
      else \<lparr>shape = shape a, strides = (snd (shape a), 1),
            buffer = concat (map (\<lambda>i. map (\<lambda>j. buffer a ! (i * fst (strides a) + j * snd (strides a)))
                                       [0..<snd (shape a)])
                                 [0..<fst (shape a)])\<rparr>)"

text \<open>
  \<^verbatim>\<open>
    def take_fast_frame(self):
        frame = np.ndarray((self.height, self.width), dtype=np.uint8)
        frame = np.ascontiguousarray(frame)
        if not self.lib.LucamTakeFastFrame(self._handle, self.ffi.from_buffer(frame)):
            raise LucamError(self)
        return frame
  \<close>
\<close>

definition take_fast_frame :: "'n lib \<Rightarrow> ('n, ndarray) action" where
  "take_fast_frame lib =
     op_bind (op_self_opt ''height'' cam_height) (\<lambda>h.
     op_bind (op_self_opt ''width'' cam_width) (\<lambda>w.
       case np_ndarray (h, w) of
         Inl e \<Rightarrow> op_raise e
       | Inr frame \<Rightarrow>
           op_bind (op_return (ascontiguousarray frame)) (\<lambda>frame.
           op_bind (op_self handle) (\<lambda>hd.
           op_bind (native_call (TakeFastFrame hd) (LucamTakeFastFrame lib hd)) (\<lambda>(ok, bytes).
             if \<not> ok then raise_LucamError lib
             else op_return (frame\<lparr>buffer := map bytes [0..<length (buffer frame)]\<rparr>))))))"

text \<open>
  \<^verbatim>\<open>
    def white_balance(self, start_x=0, start_y=0, width=None, height=None):
        width = self.width if width is None else width
        height = self.height if height is None else height
        if self.fast_frames_enabled:
            self.disable_fast_frames()
        h_wnd = self.ffi.new("HWND *")
        if not self.lib.LucamStreamVideoControl(
            self._handle, self.lib.START_STREAMING, h_wnd
        ):
            raise LucamError(self)
        if not self.lib.LucamOneShotAutoWhiteBalance(
            self._handle, start_x, start_y, width, height
        ):
            raise LucamError(self)
        if not self.lib.LucamStreamVideoControl(
            self._handle, self.lib.STOP_STREAMING, h_wnd
        ):
            raise LucamError(self)
        self.get_default_snapshot()
        self.enable_fast_frames()
  \<close>
  A parameter left out of the call has its default: 0 for the start coordinates,
  \<open>None\<close> for the width and the height.
\<close>

definition stream_video_control :: "'n lib \<Rightarrow> string \<Rightarrow> ('n, unit) action" where
  "stream_video_control lib control =
     op_bind (op_self handle) (\<lambda>h.
     op_bind (lib_symbol lib control) (\<lambda>ctl.
     op_bind (native_call (StreamVideoControl h ctl) (LucamStreamVideoControl lib h ctl)) (\<lambda>ok.
       if \<not> ok then raise_LucamError lib else op_return ())))"

definition white_balance ::
  "'n lib \<Rightarrow> ffi \<Rightarrow> int \<Rightarrow> int \<Rightarrow> int option \<Rightarrow> int option \<Rightarrow> ('n, unit) action" where
  "white_balance lib ffi start_x start_y width_arg height_arg =
     op_bind (case width_arg of None \<Rightarrow> op_self_opt ''width'' cam_width
                              | Some v \<Rightarrow> op_return v) (\<lambda>width.
     op_bind (case height_arg of None \<Rightarrow> op_self_opt ''height'' cam_height
                               | Some v \<Rightarrow> op_return v) (\<lambda>height.
     op_bind (op_self fast_frames_enabled) (\<lambda>enabled.
     op_bind (if enabled then disable_fast_frames lib else op_return ()) (\<lambda>_.
     op_bind (stream_video_control lib ''START_STREAMING'') (\<lambda>_.
     op_bind (op_self handle) (\<lambda>h.
     op_bind (native_call (OneShotAutoWhiteBalance h start_x start_y width height)
                (LucamOneShotAutoWhiteBalance lib h start_x start_y width height)) (\<lambda>ok.
     op_bind (if \<not> ok then raise_LucamError lib else op_return ()) (\<lambda>_.
     op_bind (stream_video_control lib ''STOP_STREAMING'') (\<lambda>_.
     op_bind (get_default_snapshot lib ffi) (\<lambda>_.
       enable_fast_frames lib ffi None))))))))))"

text \<open>
  \<^verbatim>\<open>
    def camera_close(self):
        if not self.lib.LucamCameraClose(self._handle):
            raise LucamError(self)
  \<close>
\<close>

definition camera_close :: "'n lib \<Rightarrow> ('n, unit) action" where
  "camera_close lib =
     op_bind (op_self handle) (\<lambda>h.
     op_bind (native_call (CameraClose h) (LucamCameraClose lib h)) (\<lambda>ok.
       if \<not> ok then raise_LucamError lib else op_return ()))"

section \<open>Notions used to state the properties\<close>

text \<open>
  What the round trip of a \<open>Format\<close> needs of the header: it declares the eleven
  fields, no two of them share storage, and every field of the record holds a value
  of the C type of its native field.
\<close>

definition declared :: "cstruct \<Rightarrow> bool" where
  "declared decl = list_all (\<lambda>attr. decl attr \<noteq> None) Format_annotations"

definition separate :: "cstruct \<Rightarrow> bool" where
  "separate decl = distinct (map (\<lambda>attr. map_option cell (decl attr)) Format_annotations)"

definition fits :: "cstruct \<Rightarrow> Format \<Rightarrow> bool" where
  "fits decl f =
     list_all (\<lambda>attr. case (decl attr, Format_getattr f attr) of
                         (Some fd, Some v) \<Rightarrow> c_min fd \<le> v \<and> v \<le> c_max fd
                       | _ \<Rightarrow> False)
       Format_annotations"

text \<open>
  The derivation of the default snapshot in the words of the specification: each gain
  and exposure property is queried by the native symbol named here, the format is
  queried again, and the timeout is the constant 100. A query looks the symbol up on
  the library, calls \<open>LucamGetProperty\<close> and raises when the call reports failure;
  sequencing stops at the first query that raises.
\<close>

definition spec_query :: "'n lib \<Rightarrow> string \<Rightarrow> ('n, real) action" where
  "spec_query lib name =
     op_bind (op_self handle) (\<lambda>h.
     op_bind (lib_symbol lib name) (\<lambda>p.
     op_bind (native_call (GetProperty h p) (LucamGetProperty lib h p)) (\<lambda>(ok, v).
       if \<not> ok then raise_LucamError lib else op_return v)))"

definition spec_default_snapshot :: "'n lib \<Rightarrow> ffi \<Rightarrow> ('n, Snapshot) action" where
  "spec_default_snapshot lib ffi =
     op_bind (spec_query lib ''LUCAM_PROP_EXPOSURE'') (\<lambda>e.
     op_bind (spec_query lib ''LUCAM_PROP_GAIN'') (\<lambda>g.
     op_bind (spec_query lib ''LUCAM_PROP_GAIN_RED'') (\<lambda>r.
     op_bind (spec_query lib ''LUCAM_PROP_GAIN_BLUE'') (\<lambda>b.
     op_bind (spec_query lib ''LUCAM_PROP_GAIN_GREEN1'') (\<lambda>g1.
     op_bind (spec_query lib ''LUCAM_PROP_GAIN_GREEN2'') (\<lambda>g2.
     op_bind (get_format lib ffi) (\<lambda>f.
     op_bind (op_assign (\<lambda>self. self\<lparr>cam_snapshot :=
                Some \<lparr>exposure = e, gain = g, gainRed = r, gainBlue = b, gainGrn1 = g1,
                      gainGrn2 = g2, timeout = 100, format = f\<rparr>\<rparr>)) (\<lambda>_.
       op_return \<lparr>exposure = e, gain = g, gainRed = r, gainBlue = b, gainGrn1 = g1,
                  gainGrn2 = g2, timeout = 100, format = f\<rparr>))))))))"

text \<open>
  Relations between the world before and the world after an operation, and what it
  means for an operation to keep one from every world it may start in.
\<close>

definition keeps :: "('n world \<Rightarrow> 'n world \<Rightarrow> bool) \<Rightarrow> ('n, 'a) action \<Rightarrow> bool" where
  "keeps R m = (\<forall>w. R w (snd (m w)))"

text \<open>The cached attributes and the handle are as before; only the mode flag may differ.\<close>

definition same_caches :: "'n world \<Rightarrow> 'n world \<Rightarrow> bool" where
  "same_caches w w' =
     (handle (cam w') = handle (cam w) \<and> cam_format (cam w') = cam_format (cam w) \<and>
      cam_snapshot (cam w') = cam_snapshot (cam w) \<and> framerate (cam w') = framerate (cam w) \<and>
      cam_width (cam w') = cam_width (cam w) \<and> cam_height (cam w') = cam_height (cam w))"

text \<open>The handle is as before.\<close>

definition same_handle :: "'n world \<Rightarrow> 'n world \<Rightarrow> bool" where
  "same_handle w w' = (handle (cam w') = handle (cam w))"

text \<open>
  The record of accesses has grown at its end, and every new entry satisfies \<open>P\<close>.
\<close>

definition extends :: "(event \<Rightarrow> bool) \<Rightarrow> 'n world \<Rightarrow> 'n world \<Rightarrow> bool" where
  "extends P w w' = (\<exists>new. trace w' = trace w @ new \<and> list_all P new)"

text \<open>
  An access is a one-shot white balance over the region \<open>r\<close>, or another access
  altogether; and an access is a one-shot white balance over a region of a width and a
  height above zero, or another access altogether.
\<close>

fun awb_region_nonempty :: "event \<Rightarrow> bool" where
  "awb_region_nonempty (OneShotAutoWhiteBalance h x y a b) = (0 < a \<and> 0 < b)"
| "awb_region_nonempty (Symbol v) = True"
| "awb_region_nonempty (CameraOpen v) = True"
| "awb_region_nonempty (GetLastErrorForCamera v) = True"
| "awb_region_nonempty (GetProperty v va) = True"
| "awb_region_nonempty (SetProperty v va vb vc) = True"
| "awb_region_nonempty (GetFormat v) = True"
| "awb_region_nonempty (EnableFastFrames v va) = True"
| "awb_region_nonempty (DisableFastFrames v) = True"
| "awb_region_nonempty (TakeFastFrame v) = True"
| "awb_region_nonempty (StreamVideoControl v va) = True"
| "awb_region_nonempty (CameraClose v) = True"

fun awb_region_is :: "int \<times> int \<times> int \<times> int \<Rightarrow> event \<Rightarrow> bool" where
  "awb_region_is r (OneShotAutoWhiteBalance h x y a b) = ((x, y, a, b) = r)"
| "awb_region_is r (Symbol v) = True"
| "awb_region_is r (CameraOpen v) = True"
| "awb_region_is r (GetLastErrorForCamera v) = True"
| "awb_region_is r (GetProperty v va) = True"
| "awb_region_is r (SetProperty v va vb vc) = True"
| "awb_region_is r (GetFormat v) = True"
| "awb_region_is r (EnableFastFrames v va) = True"
| "awb_region_is r (DisableFastFrames v) = True"
| "awb_region_is r (TakeFastFrame v) = True"
| "awb_region_is r (StreamVideoControl v va) = True"
| "awb_region_is r (CameraClose v) = True"

text \<open>
  A relation that every step of a session keeps, except possibly a one-shot white
  balance call: it is reflexive and transitive, and it holds across the record of a
  native call other than the white balance, across the lookup of a constant, and across
  an assignment to attributes that leaves the handle as it was.
\<close>

fun is_awb :: "event \<Rightarrow> bool" where
  "is_awb (OneShotAutoWhiteBalance h x y a b) = True"
| "is_awb (Symbol v) = False"
| "is_awb (CameraOpen v) = False"
| "is_awb (GetLastErrorForCamera v) = False"
| "is_awb (GetProperty v va) = False"
| "is_awb (SetProperty v va vb vc) = False"
| "is_awb (GetFormat v) = False"
| "is_awb (EnableFastFrames v va) = False"
| "is_awb (DisableFastFrames v) = False"
| "is_awb (TakeFastFrame v) = False"
| "is_awb (StreamVideoControl v va) = False"
| "is_awb (CameraClose v) = False"

definition stable :: "('n world \<Rightarrow> 'n world \<Rightarrow> bool) \<Rightarrow> bool" where
  "stable R =
     (reflp R \<and> transp R \<and>
      (\<forall>w n' ev. \<not> is_awb ev \<longrightarrow> R w (w\<lparr>native := n', trace := trace w @ [ev]\<rparr>)) \<and>
      (\<forall>w name. R w (w\<lparr>trace := trace w @ [Symbol name]\<rparr>)) \<and>
      (\<forall>w c. handle c = handle (cam w) \<longrightarrow> R w (w\<lparr>cam := c\<rparr>)))"

text \<open>
  A native layer on which every call of the session succeeds: each function that the
  session checks reports success, for all arguments and in every state.
\<close>

definition cooperative :: "'n lib \<Rightarrow> bool" where
  "cooperative lib =
     ((\<forall>h p n. fst (fst (LucamGetProperty lib h p n))) \<and>
      (\<forall>h n. fst (fst (LucamGetFormat lib h n))) \<and>
      (\<forall>h c n. fst (LucamEnableFastFrames lib h c n)) \<and>
      (\<forall>h n. fst (LucamDisableFastFrames lib h n)) \<and>
      (\<forall>h ctl n. fst (LucamStreamVideoControl lib h ctl n)) \<and>
      (\<forall>h x y a b n. fst (LucamOneShotAutoWhiteBalance lib h x y a b n)))"

text \<open>
  A complete binding: the header defines the constants that the session looks up by
  name, and declares the eleven fields of the frame format, each with a C type that
  has values.
\<close>

definition bound :: "'n lib \<Rightarrow> ffi \<Rightarrow> bool" where
  "bound lib ffi =
     (list_all (\<lambda>name. symbols lib name \<noteq> None)
        [''START_STREAMING'', ''STOP_STREAMING'', ''LUCAM_PROP_EXPOSURE'',
         ''LUCAM_PROP_GAIN'', ''LUCAM_PROP_GAIN_RED'', ''LUCAM_PROP_GAIN_BLUE'',
         ''LUCAM_PROP_GAIN_GREEN1'', ''LUCAM_PROP_GAIN_GREEN2''] \<and>
      list_all (\<lambda>attr. case frame_format_decl ffi attr of
                          None \<Rightarrow> False
                        | Some fd \<Rightarrow> c_min fd \<le> c_max fd)
        Format_annotations)"

text \<open>An operation that returns from every world, in a world that satisfies \<open>Q\<close>.\<close>

definition always :: "('n, 'a) action \<Rightarrow> ('n world \<Rightarrow> bool) \<Rightarrow> bool" where
  "always m Q = (\<forall>w. \<exists>a w'. m w = (Inr a, w') \<and> Q w')"

section \<open>A simulated native layer\<close>

text \<open>
  A header and a library to run the session on, for concrete instances of the theorems
  below. The header declares the eleven members of the frame format one after another,
  each in storage of its own: five unsigned 32-bit members and six unsigned 16-bit
  members. The library counts the native calls made so far in its state, and the call
  with a number in \<open>failing\<close> reports failure; every other call succeeds, for any
  handle. It opens camera 1 and returns the null handle for another index; its sensor
  has 8 by 6 pixels.
\<close>

definition example_decl :: cstruct where
  "example_decl =
     map_of
       [(''xOffset'', \<lparr>cell = 0, c_min = 0, c_max = 4294967295\<rparr>),
        (''yOffset'', \<lparr>cell = 1, c_min = 0, c_max = 4294967295\<rparr>),
        (''width'', \<lparr>cell = 2, c_min = 0, c_max = 4294967295\<rparr>),
        (''height'', \<lparr>cell = 3, c_min = 0, c_max = 4294967295\<rparr>),
        (''pixelFormat'', \<lparr>cell = 4, c_min = 0, c_max = 4294967295\<rparr>),
        (''subSampleX'', \<lparr>cell = 5, c_min = 0, c_max = 65535\<rparr>),
        (''binningX'', \<lparr>cell = 6, c_min = 0, c_max = 65535\<rparr>),
        (''flagsX'', \<lparr>cell = 7, c_min = 0, c_max = 65535\<rparr>),
        (''subSampleY'', \<lparr>cell = 8, c_min = 0, c_max = 65535\<rparr>),
        (''binningY'', \<lparr>cell = 9, c_min = 0, c_max = 65535\<rparr>),
        (''flagsY'', \<lparr>cell = 10, c_min = 0, c_max = 65535\<rparr>)]"

definition example_ffi :: ffi where
  "example_ffi = \<lparr>frame_format_decl = example_decl, to_c_float = (\<lambda>x. x)\<rparr>"

definition mock_symbols :: "string \<Rightarrow> int option" where
  "mock_symbols =
     map_of
       [(''LUCAM_PROP_EXPOSURE'', 20), (''LUCAM_PROP_GAIN'', 40),
        (''LUCAM_PROP_GAIN_RED'', 41), (''LUCAM_PROP_GAIN_GREEN1'', 42),
        (''LUCAM_PROP_GAIN_GREEN2'', 43), (''LUCAM_PROP_GAIN_BLUE'', 44),
        (''START_STREAMING'', 1), (''STOP_STREAMING'', 0)]"

definition mock_frame_format :: cdata where
  "mock_frame_format = ffi_new(2 := 8, 3 := 6, 5 := 1, 8 := 1)"

definition mock_lib :: "nat list \<Rightarrow> nat lib" where
  "mock_lib failing =
     \<lparr>symbols = mock_symbols,
      LucamCameraOpen = (\<lambda>number n. (if 1 = number then 1 else 0, Suc n)),
      LucamGetLastErrorForCamera = (\<lambda>h n. (5, Suc n)),
      LucamGetProperty = (\<lambda>h p n. ((n \<notin> set failing, of_int p), Suc n)),
      LucamSetProperty = (\<lambda>h p v flags n. (n \<notin> set failing, Suc n)),
      LucamGetFormat = (\<lambda>h n. ((n \<notin> set failing, mock_frame_format, 30), Suc n)),
      LucamEnableFastFrames = (\<lambda>h c n. (n \<notin> set failing, Suc n)),
      LucamDisableFastFrames = (\<lambda>h n. (n \<notin> set failing, Suc n)),
      LucamTakeFastFrame = (\<lambda>h n. ((n \<notin> set failing, (\<lambda>i. of_nat i)), Suc n)),
      LucamStreamVideoControl = (\<lambda>h ctl n. (n \<notin> set failing, Suc n)),
      LucamOneShotAutoWhiteBalance = (\<lambda>h x y w hh n. (n \<notin> set failing, Suc n)),
      LucamCameraClose = (\<lambda>h n. (n \<notin> set failing, Suc n))\<rparr>"

text \<open>
  The session after \<open>LucamCamera(1)\<close> on the simulated library with no failing call.
  The constructor makes the native calls 0 to 8, so the next call is number 9;
  \<open>idle\<close> is that session written out.
\<close>

definition opened :: "nat world" where
  "opened = snd (LucamCamera_init (mock_lib []) example_ffi 1 0)"

definition sensor_format :: Format where
  "sensor_format =
     \<lparr>xOffset = 0, yOffset = 0, width = 8, height = 6, pixelFormat = 0, subSampleX = 1,
      binningX = 0, flagsX = 0, subSampleY = 1, binningY = 0, flagsY = 0\<rparr>"

definition default_snapshot :: Snapshot where
  "default_snapshot =
     \<lparr>exposure = 20, gain = 40, gainRed = 41, gainBlue = 44, gainGrn1 = 42, gainGrn2 = 43,
      timeout = 100, format = sensor_format\<rparr>"

definition idle :: "nat world" where
  "idle =
     \<lparr>cam = \<lparr>handle = 1, cam_format = Some sensor_format,
             cam_snapshot = Some default_snapshot, framerate = 30,
             fast_frames_enabled = False, cam_width = Some 8, cam_height = Some 6\<rparr>,
      native = 9,
      trace =
        [CameraOpen 1, GetFormat 1, Symbol ''LUCAM_PROP_EXPOSURE'', GetProperty 1 20,
         Symbol ''LUCAM_PROP_GAIN'', GetProperty 1 40, Symbol ''LUCAM_PROP_GAIN_RED'',
         GetProperty 1 41, Symbol ''LUCAM_PROP_GAIN_BLUE'', GetProperty 1 44,
         Symbol ''LUCAM_PROP_GAIN_GREEN1'', GetProperty 1 42,
         Symbol ''LUCAM_PROP_GAIN_GREEN2'', GetProperty 1 43, GetFormat 1]\<rparr>"

text \<open>The same session after \<open>enable_fast_frames()\<close>, which is native call 9.\<close>

definition streaming :: "nat world" where
  "streaming = snd (enable_fast_frames (mock_lib []) example_ffi None opened)"

text \<open>A snapshot that a caller builds, different from the default one of the session.\<close>

definition dim_snapshot :: Snapshot where
  "dim_snapshot =
     \<lparr>exposure = 5, gain = 1, gainRed = 1, gainBlue = 1, gainGrn1 = 1, gainGrn2 = 1,
      timeout = 250,
      format = \<lparr>xOffset = 0, yOffset = 0, width = 4, height = 2, pixelFormat = 0,
                 subSampleX = 1, binningX = 1, flagsX = 0, subSampleY = 1, binningY = 1,
                 flagsY = 0\<rparr>\<rparr>"

section \<open>Property names\<close>

lemma is_AZ_capital: "is_AZ c = is_capital c"
proof -
  have "is_capital c \<longleftrightarrow> (of_char c :: nat) \<in> of_char ` set ''ABCDEFGHIJKLMNOPQRSTUVWXYZ''"
    unfolding is_capital_def by (rule inj_image_mem_iff [symmetric]) (simp add: inj_on_def)
  also have "\<dots> \<longleftrightarrow> 65 \<le> (of_char c :: nat) \<and> (of_char c :: nat) \<le> 90"
    by simp arith
  finally show ?thesis by (simp add: is_AZ_def)
qed

lemma split_from_re_sub_AZ:
  "list_all (\<lambda>c. \<not> isspace c) s \<Longrightarrow> split_from w (re_sub_AZ s) = cut_from w s"
proof (induction s arbitrary: w)
  case Nil
  then show ?case by simp
next
  case (Cons c s)
  have space: "isspace CHR '' ''" by (simp add: isspace_def)
  from Cons.prems have c: "\<not> isspace c" and s: "list_all (\<lambda>c. \<not> isspace c) s" by simp_all
  show ?case
  proof (cases "is_capital c")
    case True
    then show ?thesis using c space Cons.IH [OF s] by (simp add: is_AZ_capital)
  next
    case False
    then show ?thesis using c Cons.IH [OF s] by (simp add: is_AZ_capital)
  qed
qed

lemma prop_symbol_spec:
  assumes "CHR ''_'' \<in> set s \<or> list_all (\<lambda>c. \<not> isspace c) s"
  shows "prop_symbol s = spec_prop_symbol s"
proof (cases "CHR ''_'' \<in> set s")
  case True
  then show ?thesis by (simp add: prop_symbol_def spec_prop_symbol_def)
next
  case False
  with assms have "list_all (\<lambda>c. \<not> isspace c) s" by simp
  then have "str_split (re_sub_AZ s) = spec_split_capitals s"
    by (simp add: str_split_def spec_split_capitals_def split_from_re_sub_AZ)
  with False show ?thesis by (simp add: prop_symbol_def spec_prop_symbol_def)
qed

text \<open>
  C1, as amended. A property identifier given as an ASCII string resolves to the symbol
  that the specification describes: when it contains no underscore and no whitespace,
  it is split at each capital letter, the words are joined with underscores, the
  result is upper-cased and \<open>LUCAM_PROP_\<close> is put in front; when it contains an
  underscore it is upper-cased and prefixed as it is. That name is the one looked up
  on the bound library by \<open>_property_value\<close>, which \<open>get_property\<close> and
  \<open>set_property\<close> call.
\<close>

theorem property_name_resolution:
  assumes "isascii s" and "CHR ''_'' \<in> set s \<or> list_all (\<lambda>c. \<not> isspace c) s"
  shows "prop_symbol s = spec_prop_symbol s \<and>
         property_value lib (PropStr s) w = lib_symbol lib (spec_prop_symbol s) w"
  using prop_symbol_spec [OF assms(2)] by simp

text \<open>The identifiers \<open>gainRed\<close> and \<open>gain_red\<close> both resolve to \<open>LUCAM_PROP_GAIN_RED\<close>.\<close>

theorem property_name_resolution_witness:
  "prop_symbol ''gainRed'' = ''LUCAM_PROP_GAIN_RED'' \<and>
   prop_symbol ''gain_red'' = ''LUCAM_PROP_GAIN_RED''"
proof -
  have a: "isascii ''gainRed''" "isascii ''gain_red''" by code_simp+
  have b: "CHR ''_'' \<in> set ''gainRed'' \<or> list_all (\<lambda>c. \<not> isspace c) ''gainRed''"
    "CHR ''_'' \<in> set ''gain_red'' \<or> list_all (\<lambda>c. \<not> isspace c) ''gain_red''"
    by code_simp+
  have c: "spec_prop_symbol ''gainRed'' = ''LUCAM_PROP_GAIN_RED''"
    "spec_prop_symbol ''gain_red'' = ''LUCAM_PROP_GAIN_RED''"
    by code_simp+
  have "prop_symbol ''gainRed'' = spec_prop_symbol ''gainRed''"
    using property_name_resolution [OF a(1) b(1), of "mock_lib []" opened] by (rule conjunct1)
  moreover have "prop_symbol ''gain_red'' = spec_prop_symbol ''gain_red''"
    using property_name_resolution [OF a(2) b(2), of "mock_lib []" opened] by (rule conjunct1)
  ultimately show ?thesis using c by simp
qed

text \<open>
  An identifier with no underscore that contains a space: \<open>split\<close> separates the
  words at the space too, so the name looked up has an underscore where splitting at
  capital letters alone leaves the space.
\<close>

theorem property_name_whitespace_counterexample:
  "isascii ''gain red'' \<and> CHR ''_'' \<notin> set ''gain red'' \<and>
   prop_symbol ''gain red'' = ''LUCAM_PROP_GAIN_RED'' \<and>
   spec_prop_symbol ''gain red'' = ''LUCAM_PROP_GAIN RED''"
  by code_simp

section \<open>Format round trip\<close>

lemma c_read_id: "c_min fd \<le> v \<Longrightarrow> v \<le> c_max fd \<Longrightarrow> c_read fd v = v"
  by (simp add: c_read_def)

lemma as_lucam_loop_fold:
  "list_all (\<lambda>a. case (decl a, Format_getattr f a) of
                    (Some fd, Some v) \<Rightarrow> c_min fd \<le> v \<and> v \<le> c_max fd
                  | _ \<Rightarrow> False) attrs \<Longrightarrow>
   as_lucam_loop decl f attrs c =
     Inr (fold (\<lambda>a c. c(cell (the (decl a)) := the (Format_getattr f a))) attrs c)"
  by (induction attrs arbitrary: c) (auto simp: c_setattr_def split: option.splits)

lemma from_lucam_loop_fold:
  "list_all (\<lambda>a. decl a \<noteq> None) attrs \<Longrightarrow>
   from_lucam_loop decl c attrs kw =
     Inr (fold (\<lambda>a kw. kw(a \<mapsto> c_read (the (decl a)) (c (cell (the (decl a)))))) attrs kw)"
  by (induction attrs arbitrary: kw) (auto simp: c_getattr_def split: option.splits)

lemma fits_declared: "fits decl f \<Longrightarrow> declared decl"
  by (auto simp: fits_def declared_def list_all_iff split: option.splits)

text \<open>
  C3, as amended. When the header declares the eleven fields in storage of their own
  and every field of the record holds a value of the C type of its native field,
  \<open>as_lucam\<close> followed by \<open>from_lucam\<close> gives back the record, equal in all eleven
  fields.
\<close>

theorem Format_roundtrip_identity:
  assumes "separate decl" and "fits decl f"
  shows "Format_roundtrip decl f = Inr f"
proof -
  from assms(2) obtain f1 f2 f3 f4 f5 f6 f7 f8 f9 f10 f11 where d:
    "decl ''xOffset'' = Some f1" "decl ''yOffset'' = Some f2" "decl ''width'' = Some f3"
    "decl ''height'' = Some f4" "decl ''pixelFormat'' = Some f5"
    "decl ''subSampleX'' = Some f6" "decl ''binningX'' = Some f7" "decl ''flagsX'' = Some f8"
    "decl ''subSampleY'' = Some f9" "decl ''binningY'' = Some f10" "decl ''flagsY'' = Some f11"
    by (auto simp: fits_def Format_annotations_def split: option.splits)
  have r: "c_read f1 (xOffset f) = xOffset f" "c_read f2 (yOffset f) = yOffset f"
    "c_read f3 (width f) = width f" "c_read f4 (height f) = height f"
    "c_read f5 (pixelFormat f) = pixelFormat f" "c_read f6 (subSampleX f) = subSampleX f"
    "c_read f7 (binningX f) = binningX f" "c_read f8 (flagsX f) = flagsX f"
    "c_read f9 (subSampleY f) = subSampleY f" "c_read f10 (binningY f) = binningY f"
    "c_read f11 (flagsY f) = flagsY f"
    using assms(2) d
    by (simp_all add: fits_def Format_annotations_def Format_getattr_def c_read_id)
  have s: "distinct [cell f1, cell f2, cell f3, cell f4, cell f5, cell f6, cell f7, cell f8,
                     cell f9, cell f10, cell f11]"
    using assms(1) d by (simp add: separate_def Format_annotations_def)
  have a: "Format_as_lucam decl f =
             Inr (fold (\<lambda>a c. c(cell (the (decl a)) := the (Format_getattr f a)))
                    Format_annotations ffi_new)"
    unfolding Format_as_lucam_def using assms(2) unfolding fits_def
    by (rule as_lucam_loop_fold)
  have b: "list_all (\<lambda>a. decl a \<noteq> None) Format_annotations"
    using fits_declared [OF assms(2)] by (simp add: declared_def)
  have "Format_from_lucam decl
          (fold (\<lambda>a c. c(cell (the (decl a)) := the (Format_getattr f a)))
             Format_annotations ffi_new) = Inr f"
    unfolding Format_from_lucam_def from_lucam_loop_fold [OF b]
    using s r by (simp add: Format_annotations_def d Format_getattr_def Format_init_def)
  then show ?thesis by (simp add: Format_roundtrip_def a)
qed

text \<open>A 640 by 480 format on the simulated header comes back as it went.\<close>

theorem Format_roundtrip_identity_witness:
  "Format_roundtrip example_decl
     \<lparr>xOffset = 0, yOffset = 0, width = 640, height = 480, pixelFormat = 0, subSampleX = 1,
      binningX = 2, flagsX = 0, subSampleY = 1, binningY = 2, flagsY = 0\<rparr> =
   Inr \<lparr>xOffset = 0, yOffset = 0, width = 640, height = 480, pixelFormat = 0, subSampleX = 1,
        binningX = 2, flagsX = 0, subSampleY = 1, binningY = 2, flagsY = 0\<rparr>"
proof -
  have a: "separate example_decl" by code_simp
  have b: "fits example_decl
     \<lparr>xOffset = 0, yOffset = 0, width = 640, height = 480, pixelFormat = 0, subSampleX = 1,
      binningX = 2, flagsX = 0, subSampleY = 1, binningY = 2, flagsY = 0\<rparr>" by code_simp
  show ?thesis by (rule Format_roundtrip_identity [OF a b])
qed

text \<open>
  A \<open>Format\<close> whose width is 2 to the power 64, which no C integer type of 64 bits
  or fewer holds: \<open>as_lucam\<close> raises \<open>OverflowError\<close> at that field and nothing comes
  back. The same happens for a negative width in an unsigned field.
\<close>

theorem Format_roundtrip_counterexample:
  "Format_roundtrip example_decl
     \<lparr>xOffset = 0, yOffset = 0, width = 18446744073709551616, height = 480, pixelFormat = 0,
      subSampleX = 1, binningX = 1, flagsX = 0, subSampleY = 1, binningY = 1, flagsY = 0\<rparr> =
     Inl (OverflowError ''width'') \<and>
   Format_roundtrip example_decl
     \<lparr>xOffset = 0, yOffset = 0, width = - 1, height = 480, pixelFormat = 0,
      subSampleX = 1, binningX = 1, flagsX = 0, subSampleY = 1, binningY = 1, flagsY = 0\<rparr> =
     Inl (OverflowError ''width'')"
  by code_simp

section \<open>The error table\<close>

lemma CODES_keys_list:
  "map fst CODES =
     [0, 1, 2, 3, 4, 5, 6, 7, 8, 9, 10, 11, 12, 13, 14, 15, 16, 17, 18, 19, 20, 21,
      22, 23, 24, 25, 26, 27, 28, 29, 30, 31, 32, 33, 34, 35, 36, 37, 38, 39, 40,
      41, 42, 43, 44, 45, 46, 47, 48, 49, 50, 51, 52, 53, 54, 55, 56, 57, 58, 59,
      60, 61, 62, 63, 64, 65, 66, 67, 68, 69, 70, 71, 72, 73, 74, 75, 76, 77, 78,
      79, 80, 81, 82, 83, 84, 85, 86, 87, 88, 89, 90, 91, 92, 93, 94, 95, 96, 97,
      98, 99]"
  by (simp add: CODES_def)

lemma numbers_to_100:
  "map int [0..<100] =
     [0, 1, 2, 3, 4, 5, 6, 7, 8, 9, 10, 11, 12, 13, 14, 15, 16, 17, 18, 19, 20, 21,
      22, 23, 24, 25, 26, 27, 28, 29, 30, 31, 32, 33, 34, 35, 36, 37, 38, 39, 40,
      41, 42, 43, 44, 45, 46, 47, 48, 49, 50, 51, 52, 53, 54, 55, 56, 57, 58, 59,
      60, 61, 62, 63, 64, 65, 66, 67, 68, 69, 70, 71, 72, 73, 74, 75, 76, 77, 78,
      79, 80, 81, 82, 83, 84, 85, 86, 87, 88, 89, 90, 91, 92, 93, 94, 95, 96, 97,
      98, 99]"
  by code_simp

lemma CODES_keys: "map fst CODES = map int [0..<100]"
  by (simp only: CODES_keys_list numbers_to_100)

lemma numbered_length:
  assumes "map fst l = map int [0..<n]"
  shows "length l = n"
proof -
  have "length (map fst l) = length (map int [0..<n])" by (simp only: assms)
  then show ?thesis by simp
qed

lemma numbered_nth:
  assumes "map fst l = map int [0..<n]" and "i < n"
  shows "fst (l ! i) = int i"
proof -
  have "map fst l ! i = map int [0..<n] ! i" by (simp only: assms(1))
  with assms(2) numbered_length [OF assms(1)] show ?thesis by simp
qed

lemma map_of_numbered:
  assumes "map fst l = map int [0..<n]" and "i < n"
  shows "map_of l (int i) = Some (snd (l ! i))"
proof -
  have "distinct (map fst l)"
    by (simp add: assms(1) distinct_map inj_on_def)
  moreover have "(int i, snd (l ! i)) \<in> set l"
  proof -
    have "l ! i \<in> set l"
      using assms(2) numbered_length [OF assms(1)] by simp
    moreover have "l ! i = (int i, snd (l ! i))"
      using numbered_nth [OF assms] by (simp add: prod_eq_iff)
    ultimately show ?thesis by simp
  qed
  ultimately show ?thesis by (rule map_of_is_SomeI)
qed

lemma map_of_numbered_None:
  assumes "map fst l = map int [0..<n]" and "c < 0 \<or> int n \<le> c"
  shows "map_of l c = None"
proof -
  from assms(2) have "c \<notin> int ` {0..<n}" by auto
  moreover have "fst ` set l = int ` {0..<n}"
  proof -
    have "set (map fst l) = set (map int [0..<n])" by (simp only: assms(1))
    then show ?thesis by simp
  qed
  ultimately show ?thesis by (simp add: map_of_eq_None_iff)
qed

text \<open>
  C4. For a code from 0 to 99, \<open>str\<close> of the exception is the text the table holds for
  that code, which is its entry number \<open>code\<close>; for an integer outside that range
  the lookup raises \<open>KeyError\<close>, and no text is returned.
\<close>

theorem LucamError_str_table:
  "(0 \<le> code \<and> code \<le> 99 \<longrightarrow>
      fst (CODES ! nat code) = code \<and> LucamError_str code = Inr (snd (CODES ! nat code))) \<and>
   (code < 0 \<or> 99 < code \<longrightarrow> LucamError_str code = Inl (KeyError code))"
proof (intro conjI impI)
  assume c: "0 \<le> code \<and> code \<le> 99"
  then have n: "nat code < 100" by auto
  from c have i: "int (nat code) = code" by auto
  from numbered_nth [OF CODES_keys n] i
  show "fst (CODES ! nat code) = code" by simp
  from map_of_numbered [OF CODES_keys n] i
  show "LucamError_str code = Inr (snd (CODES ! nat code))"
    by (simp add: LucamError_str_def dict_getitem_def)
next
  assume "code < 0 \<or> 99 < code"
  then have "code < 0 \<or> int 100 \<le> code" by auto
  from map_of_numbered_None [OF CODES_keys this]
  show "LucamError_str code = Inl (KeyError code)"
    by (simp add: LucamError_str_def dict_getitem_def)
qed

text \<open>Code 19 renders as the table's \<open>Timeout\<close> entry; codes 100 and -1 raise \<open>KeyError\<close>.\<close>

theorem LucamError_str_table_witness:
  "LucamError_str 19 = Inr ''Timeout\<newline>            The function timed out.'' \<and>
   LucamError_str 100 = Inl (KeyError 100) \<and> LucamError_str (- 1) = Inl (KeyError (- 1))"
proof -
  have "snd (CODES ! nat 19) = ''Timeout\<newline>            The function timed out.''"
    by (simp add: CODES_def)
  then show ?thesis
    using LucamError_str_table [of 19] LucamError_str_table [of 100]
      LucamError_str_table [of "- 1"]
    by simp
qed

section \<open>Sequencing and what operations keep\<close>

lemma continue_with_case:
  "continue_with r f = (case r of (Inl e, w') \<Rightarrow> (Inl e, w') | (Inr a, w') \<Rightarrow> f a w')"
  by (cases r; cases "fst r") auto

lemma op_bind_cases:
  obtains (raises) e w' where "m w = (Inl e, w')" and "op_bind m f w = (Inl e, w')"
  | (returns) a w' where "m w = (Inr a, w')" and "op_bind m f w = f a w'"
proof (cases "m w")
  case (Pair r w')
  then show thesis
    by (cases r) (auto intro: raises returns simp: op_bind_def)
qed

lemma op_bind_returns:
  assumes "op_bind m f w = (Inr b, w'')"
  obtains a w' where "m w = (Inr a, w')" and "f a w' = (Inr b, w'')"
  using assms by (cases rule: op_bind_cases [of m w f]) auto

lemma op_bind_assoc: "op_bind (op_bind m f) g = op_bind m (\<lambda>a. op_bind (f a) g)"
proof
  fix w
  show "op_bind (op_bind m f) g w = op_bind m (\<lambda>a. op_bind (f a) g) w"
    by (cases rule: op_bind_cases [of m w f]) (simp_all add: op_bind_def)
qed

lemma op_bind_return: "op_bind (op_return a) f = f a"
  by (rule ext) (simp add: op_bind_def op_return_def)

lemma op_bind_raise: "op_bind (op_raise e) f = op_raise e"
  by (rule ext) (simp add: op_bind_def op_raise_def)

lemma keeps_bind:
  assumes "transp R" and "keeps R m" and "\<And>a. keeps R (f a)"
  shows "keeps R (op_bind m f)"
  unfolding keeps_def
proof
  fix w
  show "R w (snd (op_bind m f w))"
  proof (cases rule: op_bind_cases [of m w f])
    case (raises e w')
    from assms(2) have "R w (snd (m w))" by (simp add: keeps_def)
    with raises show ?thesis by simp
  next
    case (returns a w')
    from assms(2) have "R w (snd (m w))" by (simp add: keeps_def)
    with returns(1) have "R w w'" by simp
    moreover from assms(3) have "R w' (snd (f a w'))" by (simp add: keeps_def)
    ultimately have "R w (snd (f a w'))" using assms(1) by (blast dest: transpD)
    with returns(2) show ?thesis by simp
  qed
qed

lemma keeps_return: "reflp R \<Longrightarrow> keeps R (op_return a)"
  by (simp add: keeps_def op_return_def reflpD)

lemma keeps_raise: "reflp R \<Longrightarrow> keeps R (op_raise e)"
  by (simp add: keeps_def op_raise_def reflpD)

lemma keeps_self: "reflp R \<Longrightarrow> keeps R (op_self attr)"
  by (simp add: keeps_def op_self_def reflpD)

lemma keeps_self_opt: "reflp R \<Longrightarrow> keeps R (op_self_opt name attr)"
  by (simp add: keeps_def op_self_opt_def reflpD split: option.splits)

lemma keeps_assign: "(\<And>w. R w (w\<lparr>cam := upd (cam w)\<rparr>)) \<Longrightarrow> keeps R (op_assign upd)"
  by (simp add: keeps_def op_assign_def)

lemma keeps_native_call:
  "(\<And>w n'. R w (w\<lparr>native := n', trace := trace w @ [ev]\<rparr>)) \<Longrightarrow> keeps R (native_call ev f)"
  by (simp add: keeps_def native_call_def split: prod.splits)

lemma keeps_lib_symbol:
  "(\<And>w. R w (w\<lparr>trace := trace w @ [Symbol name]\<rparr>)) \<Longrightarrow> keeps R (lib_symbol lib name)"
  by (simp add: keeps_def lib_symbol_def)

lemma keeps_if: "keeps R a \<Longrightarrow> keeps R b \<Longrightarrow> keeps R (if c then a else b)"
  by simp

lemma keeps_case_option:
  "keeps R a \<Longrightarrow> (\<And>x. keeps R (b x)) \<Longrightarrow> keeps R (case v of None \<Rightarrow> a | Some x \<Rightarrow> b x)"
  by (simp split: option.splits)

lemma keeps_case_sum:
  "(\<And>x. keeps R (a x)) \<Longrightarrow> (\<And>x. keeps R (b x)) \<Longrightarrow>
   keeps R (case v of Inl x \<Rightarrow> a x | Inr x \<Rightarrow> b x)"
  by (simp split: sum.splits)

lemma keeps_case_prod:
  "(\<And>x y. keeps R (a x y)) \<Longrightarrow> keeps R (case v of (x, y) \<Rightarrow> a x y)"
  by (simp split: prod.splits)

lemmas keeps_intros = keeps_bind keeps_return keeps_raise keeps_self keeps_self_opt
  keeps_if keeps_case_option keeps_case_sum keeps_case_prod

lemma keeps_raise_LucamError:
  assumes "reflp R" and "transp R"
    and "\<And>w n' ev. R w (w\<lparr>native := n', trace := trace w @ [ev]\<rparr>)"
  shows "keeps R (raise_LucamError lib)"
  unfolding raise_LucamError_def get_last_error_def
  by (intro keeps_intros keeps_native_call assms)

lemma same_caches_refl: "reflp same_caches"
  by (rule reflpI) (simp add: same_caches_def)

lemma same_caches_trans: "transp same_caches"
  by (rule transpI) (simp add: same_caches_def)

lemma same_handle_refl: "reflp same_handle"
  by (rule reflpI) (simp add: same_handle_def)

lemma same_handle_trans: "transp same_handle"
  by (rule transpI) (simp add: same_handle_def)

lemma extends_refl: "reflp (extends P)"
  by (rule reflpI) (simp add: extends_def)

lemma extends_trans: "transp (extends P)"
proof (rule transpI)
  fix x y z :: "'a world"
  assume "extends P x y" and "extends P y z"
  then obtain n1 n2 where "trace y = trace x @ n1" "list_all P n1"
    "trace z = trace y @ n2" "list_all P n2"
    by (auto simp: extends_def)
  then have "trace z = trace x @ (n1 @ n2) \<and> list_all P (n1 @ n2)" by simp
  then show "extends P x z" unfolding extends_def by blast
qed

lemma extends_native: "P ev \<Longrightarrow> extends P w (w\<lparr>native := n', trace := trace w @ [ev]\<rparr>)"
  by (simp add: extends_def)

lemma extends_symbol: "P (Symbol name) \<Longrightarrow> extends P w (w\<lparr>trace := trace w @ [Symbol name]\<rparr>)"
  by (simp add: extends_def)

lemma extends_assign: "extends P w (w\<lparr>cam := c\<rparr>)"
  by (simp add: extends_def)

section \<open>Fast frames\<close>

lemma enable_fast_frames_caches: "keeps same_caches (enable_fast_frames lib ffi snapshot)"
  unfolding enable_fast_frames_def
  by (intro keeps_intros keeps_native_call keeps_assign keeps_raise_LucamError
        same_caches_refl same_caches_trans)
     (simp_all add: same_caches_def)

lemma disable_fast_frames_caches: "keeps same_caches (disable_fast_frames lib)"
  unfolding disable_fast_frames_def
  by (intro keeps_intros keeps_native_call keeps_assign keeps_raise_LucamError
        same_caches_refl same_caches_trans)
     (simp_all add: same_caches_def)

lemma raise_LucamError_raises: "\<exists>e. fst (raise_LucamError lib w) = Inl e"
  by (simp add: raise_LucamError_def get_last_error_def op_bind_def op_self_def
        native_call_def op_raise_def split: prod.splits)

lemma raise_LucamError_flag:
  "fast_frames_enabled (cam (snd (raise_LucamError lib w))) = fast_frames_enabled (cam w)"
  by (simp add: raise_LucamError_def get_last_error_def op_bind_def op_self_def
        native_call_def op_raise_def split: prod.splits)

lemma raise_LucamError_result:
  "raise_LucamError lib w =
     (Inl (LucamError (fst (LucamGetLastErrorForCamera lib (handle (cam w)) (native w)))),
      w\<lparr>native := snd (LucamGetLastErrorForCamera lib (handle (cam w)) (native w)),
        trace := trace w @ [GetLastErrorForCamera (handle (cam w))]\<rparr>)"
  by (simp add: raise_LucamError_def get_last_error_def op_bind_def op_self_def
        native_call_def op_raise_def split: prod.splits)

lemma enable_fast_frames_flag:
  "fast_frames_enabled (cam (snd (enable_fast_frames lib ffi snapshot w))) =
     (case fst (enable_fast_frames lib ffi snapshot w) of
        Inr _ \<Rightarrow> True
      | Inl _ \<Rightarrow> fast_frames_enabled (cam w))"
  by (simp add: enable_fast_frames_def op_bind_def continue_with_case op_return_def
        op_raise_def op_self_def op_self_opt_def op_assign_def native_call_def
        raise_LucamError_result
      split: option.splits sum.splits prod.splits)

lemma disable_fast_frames_flag:
  "fast_frames_enabled (cam (snd (disable_fast_frames lib w))) =
     (case fst (disable_fast_frames lib w) of
        Inr _ \<Rightarrow> False
      | Inl _ \<Rightarrow> fast_frames_enabled (cam w))"
  by (simp add: disable_fast_frames_def op_bind_def continue_with_case op_return_def
        op_raise_def op_self_def op_assign_def native_call_def raise_LucamError_result
      split: option.splits sum.splits prod.splits)

text \<open>
  C5. From every world, so for every value of the flag before the call: when
  \<open>enable_fast_frames\<close> returns the flag is true, when \<open>disable_fast_frames\<close> returns
  the flag is false, and when either raises the flag is what it was before the call.
\<close>

theorem fast_frames_flag:
  "(fst (enable_fast_frames lib ffi snapshot w) = Inr () \<longrightarrow>
      fast_frames_enabled (cam (snd (enable_fast_frames lib ffi snapshot w)))) \<and>
   (fst (disable_fast_frames lib w) = Inr () \<longrightarrow>
      \<not> fast_frames_enabled (cam (snd (disable_fast_frames lib w)))) \<and>
   (\<forall>e. fst (enable_fast_frames lib ffi snapshot w) = Inl e \<longrightarrow>
      fast_frames_enabled (cam (snd (enable_fast_frames lib ffi snapshot w))) =
        fast_frames_enabled (cam w)) \<and>
   (\<forall>e. fst (disable_fast_frames lib w) = Inl e \<longrightarrow>
      fast_frames_enabled (cam (snd (disable_fast_frames lib w))) =
        fast_frames_enabled (cam w))"
  by (simp add: enable_fast_frames_flag disable_fast_frames_flag)

text \<open>
  C10. \<open>enable_fast_frames\<close>, with a snapshot given or not, returning or raising,
  leaves the cached snapshot, format, framerate, width and height (and the handle) as
  they were.
\<close>

theorem enable_fast_frames_frame:
  "cam_snapshot (cam (snd (enable_fast_frames lib ffi snapshot w))) = cam_snapshot (cam w) \<and>
   cam_format (cam (snd (enable_fast_frames lib ffi snapshot w))) = cam_format (cam w) \<and>
   framerate (cam (snd (enable_fast_frames lib ffi snapshot w))) = framerate (cam w) \<and>
   cam_width (cam (snd (enable_fast_frames lib ffi snapshot w))) = cam_width (cam w) \<and>
   cam_height (cam (snd (enable_fast_frames lib ffi snapshot w))) = cam_height (cam w) \<and>
   handle (cam (snd (enable_fast_frames lib ffi snapshot w))) = handle (cam w)"
proof -
  have "same_caches w (snd (enable_fast_frames lib ffi snapshot w))"
    using enable_fast_frames_caches [of lib ffi snapshot] by (simp add: keeps_def)
  then show ?thesis by (simp add: same_caches_def)
qed

section \<open>What every operation of the session keeps\<close>

lemma keepsD: "keeps R m \<Longrightarrow> m w = (r, w') \<Longrightarrow> R w w'"
  by (auto simp: keeps_def dest: spec [of _ w])

lemma stable_refl: "stable R \<Longrightarrow> reflp R"
  by (simp add: stable_def)

lemma stable_trans: "stable R \<Longrightarrow> transp R"
  by (simp add: stable_def)

lemma stable_native_call:
  "stable R \<Longrightarrow> \<not> is_awb ev \<Longrightarrow> keeps R (native_call ev f)"
  by (rule keeps_native_call) (simp add: stable_def)

lemma stable_lib_symbol: "stable R \<Longrightarrow> keeps R (lib_symbol lib name)"
  by (rule keeps_lib_symbol) (simp add: stable_def)

lemma stable_assign:
  "stable R \<Longrightarrow> (\<And>c. handle (upd c) = handle c) \<Longrightarrow> keeps R (op_assign upd)"
  by (rule keeps_assign) (simp add: stable_def)

lemma stable_raise_LucamError: "stable R \<Longrightarrow> keeps R (raise_LucamError lib)"
  unfolding raise_LucamError_def get_last_error_def
  by (intro keeps_intros stable_native_call stable_refl stable_trans) simp_all

lemmas stable_intros = keeps_intros stable_native_call stable_lib_symbol stable_assign
  stable_raise_LucamError stable_refl stable_trans

lemma stable_property_value: "stable R \<Longrightarrow> keeps R (property_value lib property)"
  by (cases property) (simp_all add: stable_intros)

lemma stable_get_property: "stable R \<Longrightarrow> keeps R (get_property lib property)"
  unfolding get_property_def
  by (intro stable_intros stable_property_value) simp_all

lemma stable_spec_query: "stable R \<Longrightarrow> keeps R (spec_query lib name)"
  unfolding spec_query_def
  by (intro stable_intros) simp_all

lemma stable_get_format: "stable R \<Longrightarrow> keeps R (get_format lib ffi)"
  unfolding get_format_def
  by (intro stable_intros) simp_all

lemma stable_default_snapshot_field:
  "stable R \<Longrightarrow> keeps R (default_snapshot_field lib ffi property)"
  unfolding default_snapshot_field_def
  by (intro stable_intros stable_get_format stable_get_property) simp_all

lemma stable_default_snapshot_loop:
  "stable R \<Longrightarrow> keeps R (default_snapshot_loop lib ffi properties kwargs)"
proof (induction properties arbitrary: kwargs)
  case Nil
  then show ?case by (simp add: stable_intros)
next
  case (Cons property properties)
  show ?case
    unfolding default_snapshot_loop.simps
    by (intro keeps_bind stable_trans stable_default_snapshot_field Cons.IH Cons.prems)
qed

lemma stable_get_default_snapshot: "stable R \<Longrightarrow> keeps R (get_default_snapshot lib ffi)"
  unfolding get_default_snapshot_def
  by (intro stable_intros stable_default_snapshot_loop) simp_all

lemma stable_enable_fast_frames: "stable R \<Longrightarrow> keeps R (enable_fast_frames lib ffi snapshot)"
  unfolding enable_fast_frames_def
  by (intro stable_intros) simp_all

lemma stable_disable_fast_frames: "stable R \<Longrightarrow> keeps R (disable_fast_frames lib)"
  unfolding disable_fast_frames_def
  by (intro stable_intros) simp_all

lemma stable_stream_video_control: "stable R \<Longrightarrow> keeps R (stream_video_control lib control)"
  unfolding stream_video_control_def
  by (intro stable_intros) simp_all

lemmas stable_ops = stable_intros stable_get_property stable_get_format
  stable_get_default_snapshot stable_enable_fast_frames stable_disable_fast_frames
  stable_stream_video_control

lemma stable_white_balance:
  assumes "stable R"
    and "\<And>w n' h. R w (w\<lparr>native := n',
            trace := trace w @ [OneShotAutoWhiteBalance h start_x start_y wd ht]\<rparr>)"
  shows "keeps R (white_balance lib ffi start_x start_y (Some wd) (Some ht))"
proof -
  have awb: "\<And>h f. keeps R (native_call (OneShotAutoWhiteBalance h start_x start_y wd ht) f)"
    by (rule keeps_native_call) (rule assms(2))
  note rest = keeps_return keeps_raise keeps_self keeps_self_opt keeps_if keeps_case_option
    stable_raise_LucamError stable_get_default_snapshot stable_enable_fast_frames
    stable_disable_fast_frames stable_stream_video_control stable_refl stable_trans
  show ?thesis
    unfolding white_balance_def option.case op_bind_return
    by (intro keeps_bind awb rest assms(1))
qed

lemma stable_same_handle: "stable same_handle"
  by (simp add: stable_def same_handle_refl same_handle_trans) (simp add: same_handle_def)

lemma stable_extends: "(\<And>ev. \<not> is_awb ev \<Longrightarrow> P ev) \<Longrightarrow> stable (extends P)"
  by (simp add: stable_def extends_refl extends_trans) (simp add: extends_def)

lemma not_awb_region: "\<not> is_awb ev \<Longrightarrow> awb_region_is r ev"
  by (cases ev) simp_all

lemma stable_extends_region: "stable (extends (awb_region_is r))"
  by (rule stable_extends) (rule not_awb_region)

lemma stable_extends_any: "stable (extends (\<lambda>_. True))"
  by (rule stable_extends) simp

section \<open>Fast frame capture\<close>

lemma take_fast_frame_no_height:
  "cam_height (cam w) = None \<Longrightarrow> take_fast_frame lib w = (Inl (AttributeError ''height''), w)"
  by (simp add: take_fast_frame_def op_bind_def op_self_opt_def)

lemma take_fast_frame_no_width:
  "cam_height (cam w) = Some rows \<Longrightarrow> cam_width (cam w) = None \<Longrightarrow>
   take_fast_frame lib w = (Inl (AttributeError ''width''), w)"
  by (simp add: take_fast_frame_def op_bind_def op_self_opt_def)

lemma take_fast_frame_negative:
  "cam_height (cam w) = Some rows \<Longrightarrow> cam_width (cam w) = Some cols \<Longrightarrow>
   rows < 0 \<or> cols < 0 \<Longrightarrow>
   take_fast_frame lib w = (Inl (ValueError ''negative dimensions are not allowed''), w)"
  by (simp add: take_fast_frame_def op_bind_def op_self_opt_def np_ndarray_def op_raise_def)

lemma take_fast_frame_unfold:
  assumes "cam_height (cam w) = Some rows" and "cam_width (cam w) = Some cols"
    and "0 \<le> rows" and "0 \<le> cols"
  shows "take_fast_frame lib w =
     (case LucamTakeFastFrame lib (handle (cam w)) (native w) of
        ((ok, bytes), n') \<Rightarrow>
          if ok
          then (Inr \<lparr>shape = (nat rows, nat cols), strides = (nat cols, 1),
                     buffer = map bytes [0..<nat rows * nat cols]\<rparr>,
                w\<lparr>native := n', trace := trace w @ [TakeFastFrame (handle (cam w))]\<rparr>)
          else raise_LucamError lib
                 (w\<lparr>native := n', trace := trace w @ [TakeFastFrame (handle (cam w))]\<rparr>))"
  using assms
  by (simp add: take_fast_frame_def op_bind_def op_self_opt_def op_self_def op_return_def
        native_call_def np_ndarray_def ascontiguousarray_def c_contiguous_def
      split: prod.splits)

text \<open>
  C8. When \<open>take_fast_frame\<close> returns, the array has the shape (cached height, cached
  width), one byte per element, C-contiguous (row-major: its strides are the width and
  1) with a buffer of height times width bytes; when the native call reports failure
  it raises \<open>LucamError\<close>.
\<close>

theorem take_fast_frame_buffer:
  "(\<forall>frame w'. take_fast_frame lib w = (Inr frame, w') \<longrightarrow>
      (\<exists>rows cols. cam_height (cam w) = Some rows \<and> cam_width (cam w) = Some cols \<and>
         0 \<le> rows \<and> 0 \<le> cols \<and> shape frame = (nat rows, nat cols) \<and>
         c_contiguous frame \<and> strides frame = (nat cols, 1) \<and>
         length (buffer frame) = nat rows * nat cols)) \<and>
   (\<forall>rows cols. cam_height (cam w) = Some rows \<and> cam_width (cam w) = Some cols \<and>
      0 \<le> rows \<and> 0 \<le> cols \<and>
      \<not> fst (fst (LucamTakeFastFrame lib (handle (cam w)) (native w))) \<longrightarrow>
      (\<exists>code. fst (take_fast_frame lib w) = Inl (LucamError code)))"
proof (intro conjI allI impI)
  fix frame w'
  assume ok: "take_fast_frame lib w = (Inr frame, w')"
  from ok obtain rows where h: "cam_height (cam w) = Some rows"
    by (cases "cam_height (cam w)") (simp_all add: take_fast_frame_no_height)
  from ok h obtain cols where c: "cam_width (cam w) = Some cols"
    by (cases "cam_width (cam w)") (simp_all add: take_fast_frame_no_width)
  have "\<not> (rows < 0 \<or> cols < 0)"
  proof
    assume "rows < 0 \<or> cols < 0"
    from take_fast_frame_negative [OF h c this, of lib] ok show False by simp
  qed
  then have n: "0 \<le> rows" "0 \<le> cols" by auto
  from ok have "shape frame = (nat rows, nat cols) \<and> c_contiguous frame \<and>
      strides frame = (nat cols, 1) \<and> length (buffer frame) = nat rows * nat cols"
    unfolding take_fast_frame_unfold [OF h c n]
    by (auto simp: c_contiguous_def raise_LucamError_result split: prod.splits if_splits)
  with h c n
  show "\<exists>rows cols. cam_height (cam w) = Some rows \<and> cam_width (cam w) = Some cols \<and>
         0 \<le> rows \<and> 0 \<le> cols \<and> shape frame = (nat rows, nat cols) \<and>
         c_contiguous frame \<and> strides frame = (nat cols, 1) \<and>
         length (buffer frame) = nat rows * nat cols"
    by blast
next
  fix rows cols
  assume a: "cam_height (cam w) = Some rows \<and> cam_width (cam w) = Some cols \<and>
      0 \<le> rows \<and> 0 \<le> cols \<and>
      \<not> fst (fst (LucamTakeFastFrame lib (handle (cam w)) (native w)))"
  then have h: "cam_height (cam w) = Some rows" and c: "cam_width (cam w) = Some cols"
    and n: "0 \<le> rows" "0 \<le> cols" by simp_all
  from a show "\<exists>code. fst (take_fast_frame lib w) = Inl (LucamError code)"
    unfolding take_fast_frame_unfold [OF h c n]
    by (auto simp: raise_LucamError_result split: prod.splits)
qed

section \<open>The default snapshot\<close>

lemma field_names:
  "prop_symbol ''exposure'' = ''LUCAM_PROP_EXPOSURE''"
  "prop_symbol ''gain'' = ''LUCAM_PROP_GAIN''"
  "prop_symbol ''gainRed'' = ''LUCAM_PROP_GAIN_RED''"
  "prop_symbol ''gainBlue'' = ''LUCAM_PROP_GAIN_BLUE''"
  "prop_symbol ''gainGreen1'' = ''LUCAM_PROP_GAIN_GREEN1''"
  "prop_symbol ''gainGreen2'' = ''LUCAM_PROP_GAIN_GREEN2''"
  by code_simp+

lemma field_Grn:
  "str_contains ''Grn'' ''exposure'' = False"
  "str_contains ''Grn'' ''gain'' = False"
  "str_contains ''Grn'' ''gainRed'' = False"
  "str_contains ''Grn'' ''gainBlue'' = False"
  "str_contains ''Grn'' ''gainGrn1'' = True"
  "str_contains ''Grn'' ''gainGrn2'' = True"
  "str_replace ''Grn'' ''Green'' ''gainGrn1'' = ''gainGreen1''"
  "str_replace ''Grn'' ''Green'' ''gainGrn2'' = ''gainGreen2''"
  by code_simp+

lemma get_property_PropStr: "get_property lib (PropStr s) = spec_query lib (prop_symbol s)"
  by (simp add: get_property_def spec_query_def)

lemma get_default_snapshot_unfold:
  "get_default_snapshot lib ffi = spec_default_snapshot lib ffi"
  unfolding get_default_snapshot_def spec_default_snapshot_def Snapshot_annotations_def
    default_snapshot_loop.simps
  by (simp add: default_snapshot_field_def field_Grn field_names get_property_PropStr
        op_bind_assoc op_bind_return Snapshot_init_def Snapshot_annotations_def)

text \<open>
  C2. \<open>get_default_snapshot\<close> does what the specification describes, from every world:
  it queries the six properties by the symbols \<open>LUCAM_PROP_EXPOSURE\<close>,
  \<open>LUCAM_PROP_GAIN\<close>, \<open>LUCAM_PROP_GAIN_RED\<close>, \<open>LUCAM_PROP_GAIN_BLUE\<close>,
  \<open>LUCAM_PROP_GAIN_GREEN1\<close> and \<open>LUCAM_PROP_GAIN_GREEN2\<close> (the fields \<open>gainGrn1\<close>
  and \<open>gainGrn2\<close> with \<open>Grn\<close> replaced by \<open>Green\<close>), queries the format again for
  the \<open>format\<close> field, puts 100 in the \<open>timeout\<close> field, and raises as soon as one of
  the queries raises.
\<close>

theorem get_default_snapshot_spec:
  "get_default_snapshot lib ffi w = spec_default_snapshot lib ffi w"
  by (simp add: get_default_snapshot_unfold)

section \<open>Opening a session\<close>

lemma get_format_returns:
  assumes "get_format lib ffi w = (Inr f, w')"
  shows "cam_format (cam w') = Some f \<and> cam_width (cam w') = Some (width f) \<and>
         cam_height (cam w') = Some (height f) \<and> handle (cam w') = handle (cam w) \<and>
         cam_snapshot (cam w') = cam_snapshot (cam w)"
  using assms
  by (auto simp: get_format_def op_bind_def continue_with_case op_self_def native_call_def
        op_raise_def op_return_def op_assign_def raise_LucamError_result
      split: prod.splits sum.splits if_splits)

lemma get_format_fails:
  assumes "\<not> fst (fst (LucamGetFormat lib (handle (cam w)) (native w)))"
  shows "fst (get_format lib ffi w) =
           Inl (LucamError (fst (LucamGetLastErrorForCamera lib (handle (cam w))
                                   (snd (LucamGetFormat lib (handle (cam w)) (native w))))))"
  using assms
  by (auto simp: get_format_def op_bind_def op_self_def native_call_def
        raise_LucamError_result split: prod.splits)

lemma get_format_trace:
  "\<exists>rest. trace (snd (get_format lib ffi w)) = trace w @ GetFormat (handle (cam w)) # rest"
  by (auto simp: get_format_def op_bind_def continue_with_case op_self_def native_call_def
        op_raise_def op_return_def op_assign_def raise_LucamError_result
      split: prod.splits sum.splits if_splits)

lemma get_default_snapshot_returns:
  assumes "get_default_snapshot lib ffi w = (Inr s, w')"
  shows "cam_snapshot (cam w') = Some s \<and> timeout s = 100 \<and>
         cam_format (cam w') = Some (format s) \<and>
         cam_width (cam w') = Some (width (format s)) \<and>
         cam_height (cam w') = Some (height (format s))"
  using assms unfolding get_default_snapshot_unfold spec_default_snapshot_def
  by (elim op_bind_returns) (auto simp: op_assign_def op_return_def dest!: get_format_returns)

lemma new_camera_handle: "handle (cam (new_camera number r)) = fst r"
  by (cases r) simp

lemma new_camera_native: "native (new_camera number r) = snd r"
  by (cases r) simp

lemma new_camera_trace: "trace (new_camera number r) = [CameraOpen number]"
  by (cases r) simp

text \<open>
  C7. The constructor never looks at the index or at the handle that
  \<open>LucamCameraOpen\<close> returns: for every library, every index (0 and the negative ones
  too) and every handle (the null handle too), it raises nothing at the open, and its
  next access to the library is the format query on that handle. Only the queries
  decide what happens then. When the first format query reports failure the
  constructor raises \<open>LucamError\<close>, and its code is what \<open>LucamGetLastErrorForCamera\<close>
  gives for that handle. When the constructor returns, the session holds that handle
  and the caches are populated: the snapshot, with timeout 100, and the format, width
  and height of the format the snapshot holds. So an invalid index raises only with a
  library that rejects the queries on the handle it returned for it; the other native
  calls of the session all check their result and raise.
\<close>

theorem LucamCamera_init_unchecked_open:
  "(\<exists>rest. trace (snd (LucamCamera_init lib ffi number n)) =
      CameraOpen number # GetFormat (fst (LucamCameraOpen lib number n)) # rest) \<and>
   (\<not> fst (fst (LucamGetFormat lib (fst (LucamCameraOpen lib number n))
                  (snd (LucamCameraOpen lib number n)))) \<longrightarrow>
      fst (LucamCamera_init lib ffi number n) =
        Inl (LucamError
              (fst (LucamGetLastErrorForCamera lib (fst (LucamCameraOpen lib number n))
                      (snd (LucamGetFormat lib (fst (LucamCameraOpen lib number n))
                              (snd (LucamCameraOpen lib number n)))))))) \<and>
   (fst (LucamCamera_init lib ffi number n) = Inr () \<longrightarrow>
      handle (cam (snd (LucamCamera_init lib ffi number n))) =
        fst (LucamCameraOpen lib number n) \<and>
      (\<exists>s. cam_snapshot (cam (snd (LucamCamera_init lib ffi number n))) = Some s \<and>
           timeout s = 100 \<and>
           cam_format (cam (snd (LucamCamera_init lib ffi number n))) = Some (format s) \<and>
           cam_width (cam (snd (LucamCamera_init lib ffi number n))) = Some (width (format s)) \<and>
           cam_height (cam (snd (LucamCamera_init lib ffi number n))) =
             Some (height (format s))))"
proof (intro conjI impI)
  define w0 where "w0 = new_camera number (LucamCameraOpen lib number n)"
  define body where
    "body = op_bind (get_format lib ffi) (\<lambda>_ :: Format.
              op_bind (get_default_snapshot lib ffi) (\<lambda>_ :: Snapshot. op_return ()))"
  have init: "LucamCamera_init lib ffi number n = body w0"
    by (simp add: LucamCamera_init_def body_def w0_def)
  have h0: "handle (cam w0) = fst (LucamCameraOpen lib number n)"
    and n0: "native w0 = snd (LucamCameraOpen lib number n)"
    and t0: "trace w0 = [CameraOpen number]"
    by (simp_all add: w0_def new_camera_handle new_camera_native new_camera_trace)
  have keep: "keeps same_handle body"
    unfolding body_def
    by (intro keeps_bind keeps_return stable_get_format stable_get_default_snapshot
          stable_same_handle same_handle_refl same_handle_trans)
  show "\<exists>rest. trace (snd (LucamCamera_init lib ffi number n)) =
      CameraOpen number # GetFormat (fst (LucamCameraOpen lib number n)) # rest"
  proof -
    from get_format_trace [of lib ffi w0] obtain r1 where
      g: "trace (snd (get_format lib ffi w0)) = trace w0 @ GetFormat (handle (cam w0)) # r1"
      by blast
    have "keeps (extends (\<lambda>_. True))
            (op_bind (get_default_snapshot lib ffi) (\<lambda>_ :: Snapshot. op_return ()))"
      by (intro keeps_bind keeps_return stable_get_default_snapshot stable_extends_any
            extends_refl extends_trans)
    then have k: "\<And>w. \<exists>new. trace (snd (op_bind (get_default_snapshot lib ffi)
                      (\<lambda>_ :: Snapshot. op_return ()) w)) = trace w @ new"
      by (auto simp: keeps_def extends_def)
    show ?thesis
    proof (cases rule: op_bind_cases [of "get_format lib ffi" w0
          "\<lambda>_ :: Format. op_bind (get_default_snapshot lib ffi) (\<lambda>_ :: Snapshot. op_return ())"])
      case (raises e w')
      with g show ?thesis by (simp add: init body_def h0 t0)
    next
      case (returns a w')
      from k [of w'] obtain new where
        "trace (snd (op_bind (get_default_snapshot lib ffi) (\<lambda>_ :: Snapshot. op_return ()) w')) =
           trace w' @ new" by blast
      with returns g show ?thesis by (simp add: init body_def h0 t0)
    qed
  qed
  {
    assume "\<not> fst (fst (LucamGetFormat lib (fst (LucamCameraOpen lib number n))
                  (snd (LucamCameraOpen lib number n))))"
    then have "\<not> fst (fst (LucamGetFormat lib (handle (cam w0)) (native w0)))"
      by (simp add: h0 n0)
    from get_format_fails [OF this, of ffi]
    have "fst (get_format lib ffi w0) =
            Inl (LucamError
                  (fst (LucamGetLastErrorForCamera lib (fst (LucamCameraOpen lib number n))
                          (snd (LucamGetFormat lib (fst (LucamCameraOpen lib number n))
                                  (snd (LucamCameraOpen lib number n)))))))"
      (is "_ = Inl ?e")
      by (simp add: h0 n0)
    then obtain w' where "get_format lib ffi w0 = (Inl ?e, w')"
      by (cases "get_format lib ffi w0") simp
    then have "body w0 = (Inl ?e, w')"
      by (simp add: body_def op_bind_def)
    then show "fst (LucamCamera_init lib ffi number n) = Inl ?e"
      by (simp add: init)
  }
  {
    assume "fst (LucamCamera_init lib ffi number n) = Inr ()"
    then obtain w' where r: "body w0 = (Inr (), w')"
      unfolding init by (cases "body w0") simp
    from keepsD [OF keep r] h0
    show "handle (cam (snd (LucamCamera_init lib ffi number n))) =
            fst (LucamCameraOpen lib number n)"
      by (simp add: init r same_handle_def)
    from r obtain s where "get_default_snapshot lib ffi (snd (get_format lib ffi w0)) = (Inr s, w')"
      unfolding body_def
      by (elim op_bind_returns) (auto simp: op_return_def)
    from get_default_snapshot_returns [OF this]
    show "\<exists>s. cam_snapshot (cam (snd (LucamCamera_init lib ffi number n))) = Some s \<and>
           timeout s = 100 \<and>
           cam_format (cam (snd (LucamCamera_init lib ffi number n))) = Some (format s) \<and>
           cam_width (cam (snd (LucamCamera_init lib ffi number n))) = Some (width (format s)) \<and>
           cam_height (cam (snd (LucamCamera_init lib ffi number n))) =
             Some (height (format s))"
      by (auto simp: init r)
  }
qed

section \<open>White balance\<close>

lemma enable_fast_frames_returns:
  assumes "enable_fast_frames lib ffi snapshot w = (Inr (), w')"
  shows "fast_frames_enabled (cam w') \<and>
         (\<exists>c. trace w' = trace w @ [EnableFastFrames (handle (cam w')) c])"
  using assms
  by (auto simp: enable_fast_frames_def op_bind_def continue_with_case op_return_def
        op_raise_def op_self_def op_self_opt_def op_assign_def native_call_def
        raise_LucamError_result
      split: option.splits sum.splits prod.splits if_splits)

lemma white_balance_defaults:
  assumes "cam_width (cam w) = Some wd" and "cam_height (cam w) = Some ht"
  shows "white_balance lib ffi start_x start_y None None w =
         white_balance lib ffi start_x start_y (Some wd) (Some ht) w"
  using assms by (simp add: white_balance_def op_bind_def op_self_opt_def op_return_def)

lemma any_native_call: "keeps (extends (\<lambda>_. True)) (native_call ev f)"
  by (rule keeps_native_call) (simp add: extends_def)

lemma disable_fast_frames_trace:
  "\<exists>rest. trace (snd (disable_fast_frames lib w)) =
     trace w @ DisableFastFrames (handle (cam w)) # rest"
  by (auto simp: disable_fast_frames_def op_bind_def continue_with_case op_self_def
        native_call_def op_assign_def raise_LucamError_result
      split: prod.splits sum.splits if_splits)

lemma begins_bind:
  assumes "\<exists>rest. trace (snd (m w)) = trace w @ e # rest"
    and "\<And>a. keeps (extends (\<lambda>_. True)) (f a)"
  shows "\<exists>rest. trace (snd (op_bind m f w)) = trace w @ e # rest"
proof (cases rule: op_bind_cases [of m w f])
  case (raises e' w')
  with assms(1) show ?thesis by simp
next
  case (returns a w')
  from assms(1) returns(1) obtain r1 where "trace w' = trace w @ e # r1" by auto
  moreover from assms(2) [of a] obtain r2 where "trace (snd (f a w')) = trace w' @ r2"
    by (auto simp: keeps_def extends_def)
  ultimately show ?thesis using returns(2) by simp
qed

lemma op_bind_self: "op_bind (op_self attr) f w = f (attr (cam w)) w"
  by (simp add: op_bind_def op_self_def)

lemma white_balance_begins:
  assumes "fast_frames_enabled (cam w)"
  shows "\<exists>rest. trace (snd (white_balance lib ffi start_x start_y (Some wd) (Some ht) w)) =
           trace w @ DisableFastFrames (handle (cam w)) # rest"
proof -
  note rules = any_native_call keeps_return keeps_raise keeps_self keeps_self_opt keeps_if
    stable_raise_LucamError stable_get_default_snapshot stable_enable_fast_frames
    stable_stream_video_control stable_extends_any extends_refl extends_trans
  show ?thesis
    unfolding white_balance_def option.case op_bind_return
    apply (simp only: op_bind_self assms if_True)
    apply (rule begins_bind)
     apply (rule disable_fast_frames_trace)
    apply (intro keeps_bind rules)
    done
qed

lemma stable_conj:
  assumes "stable R" and "stable S"
  shows "stable (\<lambda>x y. R x y \<and> S x y)"
  unfolding stable_def
proof (intro conjI)
  show "reflp (\<lambda>x y. R x y \<and> S x y)"
    using stable_refl [OF assms(1)] stable_refl [OF assms(2)]
    by (simp add: reflp_def)
  show "transp (\<lambda>x y. R x y \<and> S x y)"
    using stable_trans [OF assms(1)] stable_trans [OF assms(2)]
    by (intro transpI) (blast dest: transpD)
qed (use assms in \<open>simp_all add: stable_def\<close>)

lemma white_balance_calls:
  assumes "white_balance lib ffi start_x start_y (Some wd) (Some ht) w = (Inr (), w')"
  shows "OneShotAutoWhiteBalance (handle (cam w)) start_x start_y wd ht
           \<in> set (drop (length (trace w)) (trace w'))"
proof -
  define R :: "'a world \<Rightarrow> 'a world \<Rightarrow> bool"
    where "R = (\<lambda>x y. extends (\<lambda>_. True) x y \<and> same_handle x y)"
  have R: "stable R"
    unfolding R_def by (rule stable_conj [OF stable_extends_any stable_same_handle])
  have k1: "\<And>b. keeps R (if b then disable_fast_frames lib else op_return ())"
    by (intro keeps_if keeps_return stable_disable_fast_frames stable_refl R)
  have k2: "\<And>c. keeps R (stream_video_control lib c)"
    by (intro stable_stream_video_control R)
  have k3: "\<And>b. keeps R (if b then raise_LucamError lib else op_return ())"
    by (intro keeps_if keeps_return stable_raise_LucamError stable_refl R)
  have k4: "keeps R (get_default_snapshot lib ffi)"
    by (intro stable_get_default_snapshot R)
  have k5: "keeps R (enable_fast_frames lib ffi None)"
    by (intro stable_enable_fast_frames R)
  from assms show ?thesis
    unfolding white_balance_def option.case op_bind_return
    apply (elim op_bind_returns)
    apply (drule keepsD [OF k1])
    apply (drule keepsD [OF k2])+
    apply (drule keepsD [OF k3])
    apply (drule keepsD [OF k4])
    apply (drule keepsD [OF k5])
    apply (auto simp: R_def extends_def same_handle_def op_self_def native_call_def
        split: prod.splits)
    done
qed

lemma region_nonempty:
  "0 < wd \<Longrightarrow> 0 < ht \<Longrightarrow> awb_region_is (x, y, wd, ht) ev \<Longrightarrow> awb_region_nonempty ev"
  by (cases ev) simp_all

text \<open>
  C6. With all arguments left at their defaults and the cached width and height set,
  every one-shot white balance call that \<open>white_balance\<close> makes has the region
  (0, 0, cached width, cached height), which is not an empty region for a cached width
  and height above zero; when \<open>white_balance\<close> returns it has made that call; and
  when the flag is true at entry, the first thing it does with the library is
  \<open>LucamDisableFastFrames\<close>, before the call that starts the video stream.
\<close>

theorem white_balance_default_region:
  assumes "cam_width (cam w) = Some wd" and "cam_height (cam w) = Some ht"
  shows "\<exists>new. trace (snd (white_balance lib ffi 0 0 None None w)) = trace w @ new \<and>
           list_all (awb_region_is (0, 0, wd, ht)) new \<and>
           (0 < wd \<and> 0 < ht \<longrightarrow> list_all awb_region_nonempty new) \<and>
           (fst (white_balance lib ffi 0 0 None None w) = Inr () \<longrightarrow>
              OneShotAutoWhiteBalance (handle (cam w)) 0 0 wd ht \<in> set new) \<and>
           (fast_frames_enabled (cam w) \<longrightarrow>
              (\<exists>rest. new = DisableFastFrames (handle (cam w)) # rest))"
proof -
  define r where "r = white_balance lib ffi 0 0 (Some wd) (Some ht) w"
  have d: "white_balance lib ffi 0 0 None None w = r"
    unfolding r_def by (rule white_balance_defaults [OF assms])
  have "keeps (extends (awb_region_is (0, 0, wd, ht)))
          (white_balance lib ffi 0 0 (Some wd) (Some ht))"
    by (rule stable_white_balance [OF stable_extends_region]) (simp add: extends_def)
  then obtain new where new: "trace (snd r) = trace w @ new"
    and region: "list_all (awb_region_is (0, 0, wd, ht)) new"
    unfolding r_def keeps_def extends_def by blast
  have called: "OneShotAutoWhiteBalance (handle (cam w)) 0 0 wd ht \<in> set new"
    if "fst r = Inr ()"
  proof -
    from that have "r = (Inr (), snd r)" by (cases r) simp
    from white_balance_calls [OF this [unfolded r_def], folded r_def] new
    show ?thesis by simp
  qed
  have first: "\<exists>rest. new = DisableFastFrames (handle (cam w)) # rest"
    if "fast_frames_enabled (cam w)"
    using white_balance_begins [OF that, of lib ffi 0 0 wd ht] new
    unfolding r_def by simp
  have nonempty: "list_all awb_region_nonempty new" if "0 < wd \<and> 0 < ht"
    using region that by (auto simp: list_all_iff intro: region_nonempty)
  from new region nonempty called first show ?thesis
    unfolding d by blast
qed

section \<open>White balance on a native layer where every call succeeds\<close>

lemma alwaysD: "always m Q \<Longrightarrow> \<exists>a w'. m w = (Inr a, w') \<and> Q w'"
  by (simp add: always_def)

lemma always_bind:
  assumes "always m (\<lambda>_. True)" and "\<And>a. always (f a) Q"
  shows "always (op_bind m f) Q"
  unfolding always_def
proof
  fix w
  from alwaysD [OF assms(1), of w] obtain a w' where m: "m w = (Inr a, w')" by blast
  from alwaysD [OF assms(2), of a w'] obtain b w'' where "f a w' = (Inr b, w'')" and "Q w''"
    by blast
  with m show "\<exists>b w''. op_bind m f w = (Inr b, w'') \<and> Q w''"
    by (simp add: op_bind_def)
qed

lemma always_bind_from:
  assumes "always m P" and "\<And>a w. P w \<Longrightarrow> \<exists>b w'. f a w = (Inr b, w') \<and> Q w'"
  shows "always (op_bind m f) Q"
  unfolding always_def
proof
  fix w
  from alwaysD [OF assms(1), of w] obtain a w' where m: "m w = (Inr a, w')" and "P w'"
    by blast
  from assms(2) [OF this(2), of a] obtain b w'' where "f a w' = (Inr b, w'')" and "Q w''"
    by auto
  with m show "\<exists>b w''. op_bind m f w = (Inr b, w'') \<and> Q w''"
    by (simp add: op_bind_def)
qed

lemma always_weaken: "always m Q \<Longrightarrow> always m (\<lambda>_. True)"
  unfolding always_def by meson

lemma always_return: "always (op_return a) (\<lambda>_. True)"
  by (simp add: always_def op_return_def)

lemma always_self: "always (op_self attr) (\<lambda>_. True)"
  by (simp add: always_def op_self_def)

lemma always_disable_fast_frames:
  assumes "cooperative lib"
  shows "always (disable_fast_frames lib) (\<lambda>_. True)"
  unfolding always_def
proof
  fix w :: "'a world"
  obtain ok n' where r: "LucamDisableFastFrames lib (handle (cam w)) (native w) = (ok, n')"
    by (cases "LucamDisableFastFrames lib (handle (cam w)) (native w)")
  from assms have "fst (LucamDisableFastFrames lib (handle (cam w)) (native w))"
    by (simp add: cooperative_def)
  with r have ok by simp
  with r show "\<exists>a w'. disable_fast_frames lib w = (Inr a, w') \<and> True"
    by (simp add: disable_fast_frames_def op_bind_def op_self_def native_call_def
          op_assign_def)
qed

lemma always_stream_video_control:
  assumes "cooperative lib" and "symbols lib control \<noteq> None"
  shows "always (stream_video_control lib control) (\<lambda>_. True)"
  unfolding always_def
proof
  fix w :: "'a world"
  from assms(2) obtain ctl where c: "symbols lib control = Some ctl" by auto
  obtain ok n' where r: "LucamStreamVideoControl lib (handle (cam w)) ctl (native w) = (ok, n')"
    by (cases "LucamStreamVideoControl lib (handle (cam w)) ctl (native w)")
  from assms(1) have "fst (LucamStreamVideoControl lib (handle (cam w)) ctl (native w))"
    by (simp add: cooperative_def)
  with r have ok by simp
  with r c show "\<exists>a w'. stream_video_control lib control w = (Inr a, w') \<and> True"
    by (simp add: stream_video_control_def op_bind_def op_self_def lib_symbol_def
          native_call_def op_return_def)
qed

lemma always_white_balance_call:
  assumes "cooperative lib"
  shows "always (native_call (OneShotAutoWhiteBalance h x y a b)
                   (LucamOneShotAutoWhiteBalance lib h x y a b)) (\<lambda>_. True)"
  by (simp add: always_def native_call_def split: prod.splits)

lemma always_checked:
  assumes "cooperative lib"
  shows "fst (LucamOneShotAutoWhiteBalance lib h x y a b n)"
  using assms by (simp add: cooperative_def)

lemma always_spec_query:
  assumes "cooperative lib" and "symbols lib name \<noteq> None"
  shows "always (spec_query lib name) (\<lambda>_. True)"
  unfolding always_def
proof
  fix w :: "'a world"
  from assms(2) obtain p where p: "symbols lib name = Some p" by auto
  obtain ok v n' where r: "LucamGetProperty lib (handle (cam w)) p (native w) = ((ok, v), n')"
    by (metis prod.exhaust)
  from assms(1) have "fst (fst (LucamGetProperty lib (handle (cam w)) p (native w)))"
    by (simp add: cooperative_def)
  with r have ok by simp
  with r p show "\<exists>a w'. spec_query lib name w = (Inr a, w') \<and> True"
    by (simp add: spec_query_def op_bind_def op_self_def lib_symbol_def
          native_call_def op_return_def)
qed

lemma c_read_range:
  assumes "c_min fd \<le> c_max fd"
  shows "c_min fd \<le> c_read fd v \<and> c_read fd v \<le> c_max fd"
proof -
  define m where "m = c_max fd - c_min fd + 1"
  have "0 < m" using assms by (simp add: m_def)
  then have "0 \<le> (v - c_min fd) mod m" and "(v - c_min fd) mod m < m"
    by simp_all
  then show ?thesis unfolding c_read_def m_def [symmetric] by (simp add: m_def)
qed

lemma Format_from_lucam_total:
  assumes "list_all (\<lambda>attr. case decl attr of None \<Rightarrow> False
                             | Some fd \<Rightarrow> c_min fd \<le> c_max fd) Format_annotations"
  shows "\<exists>f. Format_from_lucam decl c = Inr f \<and> fits decl f"
proof -
  from assms obtain f1 f2 f3 f4 f5 f6 f7 f8 f9 f10 f11 where d:
    "decl ''xOffset'' = Some f1" "decl ''yOffset'' = Some f2" "decl ''width'' = Some f3"
    "decl ''height'' = Some f4" "decl ''pixelFormat'' = Some f5"
    "decl ''subSampleX'' = Some f6" "decl ''binningX'' = Some f7" "decl ''flagsX'' = Some f8"
    "decl ''subSampleY'' = Some f9" "decl ''binningY'' = Some f10" "decl ''flagsY'' = Some f11"
    by (auto simp: Format_annotations_def split: option.splits)
  with assms have r: "c_min f1 \<le> c_max f1" "c_min f2 \<le> c_max f2" "c_min f3 \<le> c_max f3"
    "c_min f4 \<le> c_max f4" "c_min f5 \<le> c_max f5" "c_min f6 \<le> c_max f6"
    "c_min f7 \<le> c_max f7" "c_min f8 \<le> c_max f8" "c_min f9 \<le> c_max f9"
    "c_min f10 \<le> c_max f10" "c_min f11 \<le> c_max f11"
    by (simp_all add: Format_annotations_def)
  have b: "list_all (\<lambda>a. decl a \<noteq> None) Format_annotations"
    using d by (simp add: Format_annotations_def)
  define f where "f =
    \<lparr>xOffset = c_read f1 (c (cell f1)), yOffset = c_read f2 (c (cell f2)),
     width = c_read f3 (c (cell f3)), height = c_read f4 (c (cell f4)),
     pixelFormat = c_read f5 (c (cell f5)), subSampleX = c_read f6 (c (cell f6)),
     binningX = c_read f7 (c (cell f7)), flagsX = c_read f8 (c (cell f8)),
     subSampleY = c_read f9 (c (cell f9)), binningY = c_read f10 (c (cell f10)),
     flagsY = c_read f11 (c (cell f11))\<rparr>"
  have "Format_from_lucam decl c = Inr f"
    unfolding Format_from_lucam_def from_lucam_loop_fold [OF b]
    by (simp add: Format_annotations_def d Format_init_def f_def)
  moreover have "fits decl f"
    using r by (simp add: fits_def Format_annotations_def d Format_getattr_def f_def c_read_range)
  ultimately show ?thesis by blast
qed

lemma always_get_format:
  assumes "cooperative lib" and "bound lib ffi"
  shows "always (get_format lib ffi)
           (\<lambda>w. \<exists>f. cam_format (cam w) = Some f \<and> fits (frame_format_decl ffi) f)"
  unfolding always_def
proof
  fix w :: "'a world"
  obtain ok lf fr n' where g: "LucamGetFormat lib (handle (cam w)) (native w) = ((ok, lf, fr), n')"
    by (metis prod.exhaust)
  from assms(1) have "fst (fst (LucamGetFormat lib (handle (cam w)) (native w)))"
    by (simp add: cooperative_def)
  with g have ok by simp
  from assms(2) Format_from_lucam_total [of "frame_format_decl ffi" lf]
  obtain f where f: "Format_from_lucam (frame_format_decl ffi) lf = Inr f"
    and fit: "fits (frame_format_decl ffi) f"
    by (auto simp: bound_def)
  from g \<open>ok\<close> f fit
  show "\<exists>a w'. get_format lib ffi w = (Inr a, w') \<and>
          (\<exists>f. cam_format (cam w') = Some f \<and> fits (frame_format_decl ffi) f)"
    by (simp add: get_format_def op_bind_def op_self_def native_call_def op_assign_def
          op_return_def)
qed

lemma Snapshot_as_lucam_total:
  assumes "fits (frame_format_decl ffi) (format s)"
  shows "\<exists>c. Snapshot_as_lucam ffi s = Inr c"
proof -
  from assms have "Format_as_lucam (frame_format_decl ffi) (format s) =
      Inr (fold (\<lambda>a c. c(cell (the (frame_format_decl ffi a)) :=
                          the (Format_getattr (format s) a))) Format_annotations ffi_new)"
    unfolding Format_as_lucam_def fits_def by (rule as_lucam_loop_fold)
  then show ?thesis
    by (simp add: Snapshot_as_lucam_def Snapshot_annotations_def Snapshot_getattr_def)
qed

lemma get_default_snapshot_fits:
  assumes "get_default_snapshot lib ffi w = (Inr s, w')"
    and "bound lib ffi"
  shows "cam_snapshot (cam w') = Some s \<and> fits (frame_format_decl ffi) (format s)"
proof -
  from assms(1) obtain w6 w7 where g: "get_format lib ffi w6 = (Inr (format s), w7)"
    and s: "cam_snapshot (cam w') = Some s"
    unfolding get_default_snapshot_unfold spec_default_snapshot_def
    by (elim op_bind_returns) (auto simp: op_assign_def op_return_def)
  from g obtain lf where "Format_from_lucam (frame_format_decl ffi) lf = Inr (format s)"
    by (auto simp: get_format_def op_bind_def continue_with_case op_self_def native_call_def
          op_raise_def op_return_def op_assign_def raise_LucamError_result
        split: prod.splits sum.splits if_splits)
  moreover from assms(2) Format_from_lucam_total [of "frame_format_decl ffi" lf]
  obtain f where "Format_from_lucam (frame_format_decl ffi) lf = Inr f"
    and "fits (frame_format_decl ffi) f"
    by (auto simp: bound_def)
  ultimately show ?thesis using s by simp
qed

lemma always_get_default_snapshot:
  assumes "cooperative lib" and "bound lib ffi"
  shows "always (get_default_snapshot lib ffi)
           (\<lambda>w. \<exists>s. cam_snapshot (cam w) = Some s \<and> fits (frame_format_decl ffi) (format s))"
proof -
  from assms(2) have syms:
    "symbols lib ''LUCAM_PROP_EXPOSURE'' \<noteq> None" "symbols lib ''LUCAM_PROP_GAIN'' \<noteq> None"
    "symbols lib ''LUCAM_PROP_GAIN_RED'' \<noteq> None" "symbols lib ''LUCAM_PROP_GAIN_BLUE'' \<noteq> None"
    "symbols lib ''LUCAM_PROP_GAIN_GREEN1'' \<noteq> None"
    "symbols lib ''LUCAM_PROP_GAIN_GREEN2'' \<noteq> None"
    by (simp_all add: bound_def)
  have "always (spec_default_snapshot lib ffi) (\<lambda>_. True)"
    unfolding spec_default_snapshot_def
    by (intro always_bind always_spec_query assms(1) syms
          always_weaken [OF always_get_format [OF assms]])
       (simp_all add: always_def op_assign_def op_return_def op_bind_def)
  then have r: "\<And>w. \<exists>s w'. get_default_snapshot lib ffi w = (Inr s, w')"
    by (simp add: always_def get_default_snapshot_unfold)
  show ?thesis
    unfolding always_def
  proof
    fix w :: "'a world"
    from r [of w] obtain s w' where g: "get_default_snapshot lib ffi w = (Inr s, w')" by blast
    from get_default_snapshot_fits [OF g assms(2)] g
    show "\<exists>a w'. get_default_snapshot lib ffi w = (Inr a, w') \<and>
            (\<exists>s. cam_snapshot (cam w') = Some s \<and> fits (frame_format_decl ffi) (format s))"
      by blast
  qed
qed

lemma enable_fast_frames_total:
  assumes "cooperative lib" and "cam_snapshot (cam w) = Some s"
    and "fits (frame_format_decl ffi) (format s)"
  shows "\<exists>b w'. enable_fast_frames lib ffi None w = (Inr b, w') \<and> fast_frames_enabled (cam w')"
proof -
  from Snapshot_as_lucam_total [OF assms(3)] obtain c where c: "Snapshot_as_lucam ffi s = Inr c"
    by blast
  obtain ok n' where r: "LucamEnableFastFrames lib (handle (cam w)) c (native w) = (ok, n')"
    by (cases "LucamEnableFastFrames lib (handle (cam w)) c (native w)")
  from assms(1) have "fst (LucamEnableFastFrames lib (handle (cam w)) c (native w))"
    by (simp add: cooperative_def)
  with r have ok by simp
  with r c assms(2) show ?thesis
    by (simp add: enable_fast_frames_def op_bind_def op_self_opt_def op_self_def
          native_call_def op_assign_def)
qed

lemma always_checked_call:
  assumes "cooperative lib" and "always (f ()) Q"
  shows "always (op_bind (native_call (OneShotAutoWhiteBalance h x y a b)
                            (LucamOneShotAutoWhiteBalance lib h x y a b)) (\<lambda>ok.
                 op_bind (if \<not> ok then raise_LucamError lib else op_return ()) f)) Q"
  unfolding always_def
proof
  fix w :: "'a world"
  obtain ok n' where r: "LucamOneShotAutoWhiteBalance lib h x y a b (native w) = (ok, n')"
    by (cases "LucamOneShotAutoWhiteBalance lib h x y a b (native w)")
  from assms(1) have "fst (LucamOneShotAutoWhiteBalance lib h x y a b (native w))"
    by (simp add: cooperative_def)
  with r have ok by simp
  from alwaysD [OF assms(2),
      of "w\<lparr>native := n', trace := trace w @ [OneShotAutoWhiteBalance h x y a b]\<rparr>"]
  obtain c w' where
    "f () (w\<lparr>native := n', trace := trace w @ [OneShotAutoWhiteBalance h x y a b]\<rparr>) =
       (Inr c, w')" and "Q w'"
    by blast
  with r \<open>ok\<close>
  show "\<exists>c w'. op_bind (native_call (OneShotAutoWhiteBalance h x y a b)
                            (LucamOneShotAutoWhiteBalance lib h x y a b)) (\<lambda>ok.
                 op_bind (if \<not> ok then raise_LucamError lib else op_return ()) f) w =
               (Inr c, w') \<and> Q w'"
    by (simp add: op_bind_def native_call_def op_return_def)
qed

lemma always_white_balance:
  assumes "cooperative lib" and "bound lib ffi"
  shows "always (white_balance lib ffi start_x start_y (Some wd) (Some ht))
           (\<lambda>w. fast_frames_enabled (cam w))"
proof -
  define finish where
    "finish = op_bind (get_default_snapshot lib ffi) (\<lambda>_ :: Snapshot.
                enable_fast_frames lib ffi None)"
  have finish: "always finish (\<lambda>w. fast_frames_enabled (cam w))"
    unfolding finish_def
  proof (rule always_bind_from [OF always_get_default_snapshot [OF assms]])
    fix a :: Snapshot and w :: "'a world"
    assume "\<exists>s. cam_snapshot (cam w) = Some s \<and> fits (frame_format_decl ffi) (format s)"
    then obtain s where "cam_snapshot (cam w) = Some s"
      and "fits (frame_format_decl ffi) (format s)" by blast
    then show "\<exists>b w'. enable_fast_frames lib ffi None w = (Inr b, w') \<and>
        fast_frames_enabled (cam w')"
      by (rule enable_fast_frames_total [OF assms(1)])
  qed
  from assms(2) have syms: "symbols lib ''START_STREAMING'' \<noteq> None"
    "symbols lib ''STOP_STREAMING'' \<noteq> None"
    by (simp_all add: bound_def)
  define stop where
    "stop = (\<lambda>_ :: unit. op_bind (stream_video_control lib ''STOP_STREAMING'')
               (\<lambda>_ :: unit. finish))"
  have stop: "always (stop ()) (\<lambda>w. fast_frames_enabled (cam w))"
    unfolding stop_def
    by (intro always_bind always_stream_video_control assms(1) syms(2) finish)
  define start where
    "start = op_bind (stream_video_control lib ''START_STREAMING'') (\<lambda>_ :: unit.
             op_bind (op_self handle) (\<lambda>h.
             op_bind (native_call (OneShotAutoWhiteBalance h start_x start_y wd ht)
                        (LucamOneShotAutoWhiteBalance lib h start_x start_y wd ht)) (\<lambda>ok.
             op_bind (if \<not> ok then raise_LucamError lib else op_return ()) stop)))"
  have start: "always start (\<lambda>w. fast_frames_enabled (cam w))"
    unfolding start_def
    by (intro always_bind always_stream_video_control assms(1) syms(1) always_self
          always_checked_call stop)
  have whole: "white_balance lib ffi start_x start_y (Some wd) (Some ht) =
      op_bind (op_self fast_frames_enabled) (\<lambda>enabled.
      op_bind (if enabled then disable_fast_frames lib else op_return ()) (\<lambda>_. start))"
    by (simp add: white_balance_def op_bind_return start_def stop_def finish_def)
  have cond: "always (if enabled then disable_fast_frames lib else op_return ()) (\<lambda>_. True)"
    for enabled
    by (simp add: always_disable_fast_frames [OF assms(1)] always_return)
  show ?thesis
    unfolding whole
    by (intro always_bind always_self cond start)
qed

text \<open>Reading the default of an argument that was left out.\<close>

lemma white_balance_default_arguments:
  assumes "wd = None \<longrightarrow> cam_width (cam w) \<noteq> None"
    and "ht = None \<longrightarrow> cam_height (cam w) \<noteq> None"
  shows "\<exists>a b. white_balance lib ffi start_x start_y wd ht w =
                 white_balance lib ffi start_x start_y (Some a) (Some b) w"
proof -
  obtain a where a: "(case wd of None \<Rightarrow> op_self_opt ''width'' cam_width | Some v \<Rightarrow> op_return v) w
      = (Inr a, w)"
    using assms(1) by (cases wd) (auto simp: op_self_opt_def op_return_def)
  obtain b where b: "(case ht of None \<Rightarrow> op_self_opt ''height'' cam_height | Some v \<Rightarrow> op_return v) w
      = (Inr b, w)"
    using assms(2) by (cases ht) (auto simp: op_self_opt_def op_return_def)
  have "white_balance lib ffi start_x start_y wd ht w =
        white_balance lib ffi start_x start_y (Some a) (Some b) w"
    by (simp add: white_balance_def op_bind_def a b op_return_def)
  then show ?thesis by blast
qed

text \<open>
  C9. From every world, so for every value of the flag before the call and for every
  choice of arguments: when \<open>white_balance\<close> returns, \<open>fast_frames_enabled\<close> is true
  and the last native call was \<open>LucamEnableFastFrames\<close>; and it does return, with the
  flag true, when every native call succeeds, on a complete binding and with the cached
  size set where an argument is left out.
\<close>

theorem white_balance_enables_fast_frames:
  "(white_balance lib ffi start_x start_y wd ht w = (Inr (), w') \<longrightarrow>
      fast_frames_enabled (cam w') \<and>
      (\<exists>before c. trace w' = before @ [EnableFastFrames (handle (cam w')) c])) \<and>
   (cooperative lib \<and> bound lib ffi \<and> (wd = None \<longrightarrow> cam_width (cam w) \<noteq> None) \<and>
    (ht = None \<longrightarrow> cam_height (cam w) \<noteq> None) \<longrightarrow>
      (\<exists>w''. white_balance lib ffi start_x start_y wd ht w = (Inr (), w'') \<and>
             fast_frames_enabled (cam w'')))"
proof (intro conjI impI)
  assume "white_balance lib ffi start_x start_y wd ht w = (Inr (), w')"
  then obtain w9 where "enable_fast_frames lib ffi None w9 = (Inr (), w')"
    unfolding white_balance_def by (elim op_bind_returns) blast
  from enable_fast_frames_returns [OF this]
  show "fast_frames_enabled (cam w')"
    and "\<exists>before c. trace w' = before @ [EnableFastFrames (handle (cam w')) c]"
    by blast+
next
  assume a: "cooperative lib \<and> bound lib ffi \<and> (wd = None \<longrightarrow> cam_width (cam w) \<noteq> None) \<and>
    (ht = None \<longrightarrow> cam_height (cam w) \<noteq> None)"
  then obtain x y where d: "white_balance lib ffi start_x start_y wd ht w =
      white_balance lib ffi start_x start_y (Some x) (Some y) w"
    using white_balance_default_arguments [of wd w ht lib ffi start_x start_y] by blast
  from a have "always (white_balance lib ffi start_x start_y (Some x) (Some y))
      (\<lambda>w. fast_frames_enabled (cam w))"
    by (intro always_white_balance) simp_all
  from alwaysD [OF this, of w] d
  show "\<exists>w''. white_balance lib ffi start_x start_y wd ht w = (Inr (), w'') \<and>
             fast_frames_enabled (cam w'')"
    by auto
qed

section \<open>The theorems on the simulated native layer\<close>

lemma opened_idle: "opened = idle"
  by code_simp

lemma opened_flag: "\<not> fast_frames_enabled (cam opened)"
  unfolding opened_idle by code_simp

lemma opened_size: "cam_width (cam opened) = Some 8" "cam_height (cam opened) = Some 6"
  unfolding opened_idle by code_simp+

lemma opened_handle: "handle (cam opened) = 1"
  unfolding opened_idle by code_simp

lemma mock_cooperative: "cooperative (mock_lib [])"
  by (simp add: cooperative_def mock_lib_def)

lemma mock_bound: "bound (mock_lib []) example_ffi"
  by code_simp

lemma white_balance_opened:
  "fst (white_balance (mock_lib []) example_ffi 0 0 None None opened) = Inr ()"
proof -
  from alwaysD [OF always_white_balance [OF mock_cooperative mock_bound], of 0 0 8 6 opened]
  have "fst (white_balance (mock_lib []) example_ffi 0 0 (Some 8) (Some 6) opened) = Inr ()"
    by auto
  then show ?thesis by (simp add: white_balance_defaults [OF opened_size])
qed

text \<open>
  On the simulated camera: enabling from the idle session sets the flag, disabling
  from the streaming session clears it, a failing enable (call 9) leaves it false and a
  failing disable (call 10) leaves it true.
\<close>

theorem fast_frames_flag_witness:
  "fast_frames_enabled (cam (snd (enable_fast_frames (mock_lib []) example_ffi None opened))) \<and>
   \<not> fast_frames_enabled (cam (snd (disable_fast_frames (mock_lib []) streaming))) \<and>
   \<not> fast_frames_enabled
       (cam (snd (enable_fast_frames (mock_lib [9]) example_ffi None opened))) \<and>
   fast_frames_enabled (cam (snd (disable_fast_frames (mock_lib [10]) streaming)))"
proof -
  have a: "fst (enable_fast_frames (mock_lib []) example_ffi None opened) = Inr ()"
    unfolding streaming_def opened_idle by code_simp
  have b: "fst (disable_fast_frames (mock_lib []) streaming) = Inr ()"
    unfolding streaming_def opened_idle by code_simp
  have c: "fst (enable_fast_frames (mock_lib [9]) example_ffi None opened) =
             Inl (LucamError 5)"
    "\<not> fast_frames_enabled (cam opened)"
    unfolding streaming_def opened_idle by code_simp+
  have d: "fst (disable_fast_frames (mock_lib [10]) streaming) = Inl (LucamError 5)"
    "fast_frames_enabled (cam streaming)"
    unfolding streaming_def opened_idle by code_simp+
  show ?thesis
    using fast_frames_flag [of "mock_lib []" example_ffi None opened]
      fast_frames_flag [of "mock_lib []" example_ffi None streaming]
      fast_frames_flag [of "mock_lib [9]" example_ffi None opened]
      fast_frames_flag [of "mock_lib [10]" example_ffi None streaming]
      a b c d
    by simp
qed

text \<open>
  On the simulated camera: enabling with a snapshot of the caller's leaves the cached
  default snapshot and the cached size in place.
\<close>

theorem enable_fast_frames_frame_witness:
  "cam_snapshot (cam (snd (enable_fast_frames (mock_lib []) example_ffi (Some dim_snapshot)
       opened))) = cam_snapshot (cam opened) \<and>
   cam_width (cam (snd (enable_fast_frames (mock_lib []) example_ffi (Some dim_snapshot)
       opened))) = Some 8 \<and>
   cam_height (cam (snd (enable_fast_frames (mock_lib []) example_ffi (Some dim_snapshot)
       opened))) = Some 6 \<and>
   cam_snapshot (cam opened) \<noteq> Some dim_snapshot"
proof -
  have "cam_snapshot (cam opened) \<noteq> Some dim_snapshot"
    unfolding opened_idle by code_simp
  then show ?thesis
    using enable_fast_frames_frame [of "mock_lib []" example_ffi "Some dim_snapshot" opened]
      opened_size
    by simp
qed

text \<open>
  On the simulated camera, whose sensor has 8 by 6 pixels: the frame has the shape
  (6, 8) and 48 bytes in row-major order, and a failing capture raises.
\<close>

theorem take_fast_frame_buffer_witness:
  "(\<exists>frame w'. take_fast_frame (mock_lib []) opened = (Inr frame, w') \<and>
      shape frame = (6, 8) \<and> strides frame = (8, 1) \<and> length (buffer frame) = 48) \<and>
   (\<exists>code. fst (take_fast_frame (mock_lib [9]) opened) = Inl (LucamError code))"
proof -
  obtain frame w' where r: "take_fast_frame (mock_lib []) opened = (Inr frame, w')"
  proof -
    have "case take_fast_frame (mock_lib []) opened of
            (Inr frame, w') \<Rightarrow> True | (Inl e, w') \<Rightarrow> False"
      unfolding streaming_def opened_idle by code_simp
    then show thesis
      by (auto intro: that split: prod.splits sum.splits)
  qed
  from take_fast_frame_buffer [of "mock_lib []" opened] r opened_size
  have "shape frame = (6, 8) \<and> strides frame = (8, 1) \<and> length (buffer frame) = 48"
    by auto
  moreover have "cam_height (cam opened) = Some 6 \<and> cam_width (cam opened) = Some 8 \<and>
      (0::int) \<le> 6 \<and> (0::int) \<le> 8 \<and>
      \<not> fst (fst (LucamTakeFastFrame (mock_lib [9]) (handle (cam opened))
                   (native opened)))"
    unfolding streaming_def opened_idle by code_simp
  then have "\<exists>code. fst (take_fast_frame (mock_lib [9]) opened) = Inl (LucamError code)"
    using take_fast_frame_buffer [of "mock_lib [9]" opened] by blast
  ultimately show ?thesis using r by blast
qed

text \<open>
  On the simulated camera: the default snapshot holds what the six named symbols and
  the format query give, with timeout 100, and the accesses are the six lookups and
  queries in order, the green gains under \<open>GAIN_GREEN1\<close> and \<open>GAIN_GREEN2\<close>, and
  the format query; when the fifth query (call 13) fails the derivation raises.
\<close>

theorem get_default_snapshot_spec_witness:
  "fst (get_default_snapshot (mock_lib []) example_ffi opened) =
     Inr \<lparr>exposure = 20, gain = 40, gainRed = 41, gainBlue = 44, gainGrn1 = 42,
          gainGrn2 = 43, timeout = 100,
          format = \<lparr>xOffset = 0, yOffset = 0, width = 8, height = 6, pixelFormat = 0,
                     subSampleX = 1, binningX = 0, flagsX = 0, subSampleY = 1, binningY = 0,
                     flagsY = 0\<rparr>\<rparr> \<and>
   drop 15 (trace (snd (get_default_snapshot (mock_lib []) example_ffi opened))) =
     [Symbol ''LUCAM_PROP_EXPOSURE'', GetProperty 1 20,
      Symbol ''LUCAM_PROP_GAIN'', GetProperty 1 40,
      Symbol ''LUCAM_PROP_GAIN_RED'', GetProperty 1 41,
      Symbol ''LUCAM_PROP_GAIN_BLUE'', GetProperty 1 44,
      Symbol ''LUCAM_PROP_GAIN_GREEN1'', GetProperty 1 42,
      Symbol ''LUCAM_PROP_GAIN_GREEN2'', GetProperty 1 43, GetFormat 1] \<and>
   fst (get_default_snapshot (mock_lib [13]) example_ffi opened) = Inl (LucamError 5)"
  unfolding get_default_snapshot_spec opened_idle by code_simp

text \<open>
  On the simulated library. \<open>LucamCamera(1)\<close> returns with handle 1 and the caches
  populated. \<open>LucamCamera(0)\<close>: \<open>LucamCameraOpen\<close> returns the null handle and the
  constructor goes on to the format query on it. Where the library rejects that query
  (call 1 fails) the constructor raises, with the code that
  \<open>LucamGetLastErrorForCamera\<close> gives for the null handle, here 5; where the library
  answers the queries the constructor returns a session on the null handle.
\<close>

theorem LucamCamera_init_unchecked_open_witness:
  "handle (cam (snd (LucamCamera_init (mock_lib []) example_ffi 1 0))) = 1 \<and>
   (\<exists>s. cam_snapshot (cam (snd (LucamCamera_init (mock_lib []) example_ffi 1 0))) = Some s \<and>
      timeout s = 100 \<and>
      cam_format (cam (snd (LucamCamera_init (mock_lib []) example_ffi 1 0))) =
        Some (format s)) \<and>
   fst (LucamCameraOpen (mock_lib []) 0 0) = 0 \<and>
   (\<exists>rest. trace (snd (LucamCamera_init (mock_lib [1]) example_ffi 0 0)) =
      CameraOpen 0 # GetFormat 0 # rest) \<and>
   fst (LucamCamera_init (mock_lib [1]) example_ffi 0 0) = Inl (LucamError 5) \<and>
   fst (LucamCamera_init (mock_lib []) example_ffi 0 0) = Inr () \<and>
   handle (cam (snd (LucamCamera_init (mock_lib []) example_ffi 0 0))) = 0"
proof -
  have a: "fst (LucamCamera_init (mock_lib []) example_ffi 1 0) = Inr ()"
    by code_simp
  have b: "fst (LucamCameraOpen (mock_lib []) 1 0) = 1"
    by code_simp
  have c: "\<not> fst (fst (LucamGetFormat (mock_lib [1]) (fst (LucamCameraOpen (mock_lib [1]) 0 0))
                        (snd (LucamCameraOpen (mock_lib [1]) 0 0))))"
    by code_simp
  have d: "fst (LucamCameraOpen (mock_lib [1]) 0 0) = 0"
    "fst (LucamCameraOpen (mock_lib []) 0 0) = 0"
    by code_simp+
  have e: "fst (LucamGetLastErrorForCamera (mock_lib [1]) 0
                  (snd (LucamGetFormat (mock_lib [1]) 0 (snd (LucamCameraOpen (mock_lib [1]) 0 0))))) = 5"
    by code_simp
  have f: "fst (LucamCamera_init (mock_lib []) example_ffi 0 0) = Inr ()"
    by code_simp
  from LucamCamera_init_unchecked_open [of "mock_lib []" example_ffi 1 0] a b
  have "handle (cam (snd (LucamCamera_init (mock_lib []) example_ffi 1 0))) = 1 \<and>
   (\<exists>s. cam_snapshot (cam (snd (LucamCamera_init (mock_lib []) example_ffi 1 0))) = Some s \<and>
      timeout s = 100 \<and>
      cam_format (cam (snd (LucamCamera_init (mock_lib []) example_ffi 1 0))) =
        Some (format s))"
    by auto
  moreover from LucamCamera_init_unchecked_open [of "mock_lib [1]" example_ffi 0 0] c d e
  have "(\<exists>rest. trace (snd (LucamCamera_init (mock_lib [1]) example_ffi 0 0)) =
      CameraOpen 0 # GetFormat 0 # rest) \<and>
   fst (LucamCamera_init (mock_lib [1]) example_ffi 0 0) = Inl (LucamError 5)"
    by simp
  moreover from LucamCamera_init_unchecked_open [of "mock_lib []" example_ffi 0 0] f d
  have "handle (cam (snd (LucamCamera_init (mock_lib []) example_ffi 0 0))) = 0"
    by simp
  ultimately show ?thesis using d f by blast
qed

text \<open>
  On the simulated camera: white balance on the idle session, where the flag is
  false, returns with the flag true.
\<close>

theorem white_balance_enables_fast_frames_witness:
  "\<not> fast_frames_enabled (cam opened) \<and>
   (\<exists>w'. white_balance (mock_lib []) example_ffi 0 0 None None opened = (Inr (), w') \<and>
      fast_frames_enabled (cam w') \<and>
      (\<exists>before c. trace w' = before @ [EnableFastFrames (handle (cam w')) c]))"
proof -
  have sized: "(None :: int option) = None \<longrightarrow> cam_width (cam opened) \<noteq> None"
    "(None :: int option) = None \<longrightarrow> cam_height (cam opened) \<noteq> None"
    using opened_size by simp_all
  from white_balance_enables_fast_frames
    [of "mock_lib []" example_ffi 0 0 None None opened] mock_cooperative mock_bound sized
  obtain w' where r: "white_balance (mock_lib []) example_ffi 0 0 None None opened = (Inr (), w')"
    by blast
  from white_balance_enables_fast_frames
    [of "mock_lib []" example_ffi 0 0 None None opened w'] r
  have "fast_frames_enabled (cam w') \<and>
      (\<exists>before c. trace w' = before @ [EnableFastFrames (handle (cam w')) c])"
    by blast
  with r opened_flag show ?thesis by blast
qed

text \<open>
  On the simulated camera: white balance with default arguments calls the one-shot
  white balance over (0, 0, 8, 6), and on the streaming session it starts with
  \<open>LucamDisableFastFrames\<close>.
\<close>

theorem white_balance_default_region_witness:
  "(\<exists>new. trace (snd (white_balance (mock_lib []) example_ffi 0 0 None None opened)) =
             trace opened @ new \<and>
           OneShotAutoWhiteBalance 1 0 0 8 6 \<in> set new \<and>
           list_all awb_region_nonempty new) \<and>
   (\<exists>rest. trace (snd (white_balance (mock_lib []) example_ffi 0 0 None None streaming)) =
             trace streaming @ DisableFastFrames 1 # rest)"
proof -
  have s: "cam_width (cam streaming) = Some 8" "cam_height (cam streaming) = Some 6"
    "fast_frames_enabled (cam streaming)" "handle (cam streaming) = 1"
    unfolding streaming_def opened_idle by code_simp+
  from white_balance_default_region [OF opened_size, of "mock_lib []" example_ffi]
    white_balance_opened opened_handle
  have "\<exists>new. trace (snd (white_balance (mock_lib []) example_ffi 0 0 None None opened)) =
             trace opened @ new \<and>
           OneShotAutoWhiteBalance 1 0 0 8 6 \<in> set new \<and>
           list_all awb_region_nonempty new"
    by auto
  moreover from white_balance_default_region [OF s(1,2), of "mock_lib []" example_ffi] s(3,4)
  have "\<exists>rest. trace (snd (white_balance (mock_lib []) example_ffi 0 0 None None streaming)) =
             trace streaming @ DisableFastFrames 1 # rest"
    by auto
  ultimately show ?thesis by blast
qed

end
